theory Spec2Isabelle
  imports Main
begin

section \<open>Python values used by the timed-punishment subsystem\<close>

text \<open>
  Exceptions are values. Every constructor below is a subclass of Python's
  \<^verbatim>\<open>Exception\<close>; \<open>Forbidden\<close> is \<^verbatim>\<open>discord.Forbidden\<close>, the only one a handler of
  the punishment commands singles out. A computation that may raise returns
  \<open>exn + 'a\<close>: \<open>Inl e\<close> when \<open>e\<close> was raised, \<open>Inr v\<close> when \<open>v\<close> was returned.
\<close>

datatype exn =
    Forbidden | HTTPException | NotFound
  | NameError | TypeError | ValueError | OverflowError | RuntimeError
  | DataError | PostgresError

text \<open>
  Strings are lists of code points below 256. \<open>lower\<close> and \<open>strip\<close> are
  \<^verbatim>\<open>str.lower\<close> and \<^verbatim>\<open>str.strip\<close> on that range: the letters with a lower-case
  form are A-Z and the Latin-1 capitals, the white space characters are
  \<^verbatim>\<open>\t \n \v \f \r\<close>, the four separators 28-31, the space, NEL (133) and
  the no-break space (160).
\<close>

definition lower_char :: "char \<Rightarrow> char" where
  "lower_char c =
     (let n = (of_char c :: nat)
      in if (65 \<le> n \<and> n \<le> 90) \<or> (192 \<le> n \<and> n \<le> 222 \<and> n \<noteq> 215)
         then char_of (n + 32) else c)"

definition lower :: "string \<Rightarrow> string" where
  "lower s = map lower_char s"

definition is_space :: "char \<Rightarrow> bool" where
  "is_space c =
     (let n = (of_char c :: nat)
      in (9 \<le> n \<and> n \<le> 13) \<or> (28 \<le> n \<and> n \<le> 32) \<or> n = 133 \<or> n = 160)"

definition strip :: "string \<Rightarrow> string" where
  "strip s = rev (dropWhile is_space (rev (dropWhile is_space s)))"

definition is_digit :: "char \<Rightarrow> bool" where
  "is_digit c = (let n = (of_char c :: nat) in 48 \<le> n \<and> n \<le> 57)"

definition digit_val :: "char \<Rightarrow> int" where
  "digit_val c = int (of_char c) - 48"

definition digits_val :: "string \<Rightarrow> int" where
  "digits_val ds = foldl (\<lambda>acc c. 10 * acc + digit_val c) 0 ds"

text \<open>
  \<^verbatim>\<open>int(s)\<close> on a string of decimal digits. CPython refuses to convert more than
  \<^verbatim>\<open>sys.int_info.default_max_str_digits\<close> = 4300 digits and raises ValueError;
  this is the only ValueError the conversions of \<open>parse_duration\<close> can raise,
  since the pattern hands them digits only.
\<close>

definition int_max_str_digits :: nat where
  "int_max_str_digits = 4300"

definition py_int :: "string \<Rightarrow> exn + int" where
  "py_int ds =
     (if length ds > int_max_str_digits then Inl ValueError else Inr (digits_val ds))"

subsection \<open>datetime.timedelta\<close>

text \<open>
  A \<^verbatim>\<open>timedelta\<close> is stored normalised as days, seconds (0..86399) and
  microseconds (0..999999). The constructor, for integer arguments, sums the
  arguments, normalises, and raises OverflowError when the number of days
  exceeds 999999999 in magnitude. \<open>total_seconds\<close> is a float in Python; here
  the microseconds are always 0 and the quotient is the exact whole number of
  seconds, which is what the comparisons and \<^verbatim>\<open>int(...)\<close> of the callers see.
\<close>

record timedelta =
  td_days :: int
  td_seconds :: int
  td_microseconds :: int

definition timedelta_new :: "int \<Rightarrow> int \<Rightarrow> int \<Rightarrow> int \<Rightarrow> exn + timedelta" where
  "timedelta_new d h m s =
     (let total = d * 86400 + h * 3600 + m * 60 + s;
          dd = total div 86400;
          ss = total mod 86400
      in if \<bar>dd\<bar> > 999999999 then Inl OverflowError
         else Inr \<lparr>td_days = dd, td_seconds = ss, td_microseconds = 0\<rparr>)"

definition total_seconds :: "timedelta \<Rightarrow> int" where
  "total_seconds td =
     ((td_days td * 86400 + td_seconds td) * 1000000 + td_microseconds td) div 1000000"

text \<open>Truth value of a \<^verbatim>\<open>timedelta\<close>: only the zero duration is false.\<close>

definition td_bool :: "timedelta \<Rightarrow> bool" where
  "td_bool td = (td_days td \<noteq> 0 \<or> td_seconds td \<noteq> 0 \<or> td_microseconds td \<noteq> 0)"

section \<open>core/utils.py: parse_duration\<close>

text \<open>
  The pattern is \<^verbatim>\<open>(?:(\d+)d)?(?:(\d+)h)?(?:(\d+)m)?(?:(\d+)s)?\<close>, applied with
  \<^verbatim>\<open>re.match\<close>: anchored at the start of the string, not at its end. One optional
  group \<^verbatim>\<open>(?:(\d+)u)?\<close> is greedy: it takes the longest run of digits at the
  current position and matches when that run is not empty and the unit letter
  follows it; a shorter run is followed by a digit, so backtracking into the
  run never helps. When the group does not match it matches the empty string
  and captures nothing. \<open>match_group\<close> returns the capture and the rest of the
  string.
\<close>

definition match_group :: "char \<Rightarrow> string \<Rightarrow> string option \<times> string" where
  "match_group u s =
     (let ds = takeWhile is_digit s
      in case dropWhile is_digit s of
           [] \<Rightarrow> (None, s)
         | c # rest \<Rightarrow> if ds \<noteq> [] \<and> c = u then (Some ds, rest) else (None, s))"

text \<open>
  \<open>re_match\<close> is \<^verbatim>\<open>re.match(pattern, s)\<close> followed by \<^verbatim>\<open>groups()\<close>: None when there
  is no match, the four captures otherwise. All four groups are optional, so
  the pattern matches at the start of every string.
\<close>

definition re_match ::
  "string \<Rightarrow> (string option \<times> string option \<times> string option \<times> string option) option" where
  "re_match s =
     (let (gd, s1) = match_group (CHR ''d'') s;
          (gh, s2) = match_group (CHR ''h'') s1;
          (gm, s3) = match_group (CHR ''m'') s2;
          (gs, s4) = match_group (CHR ''s'') s3
      in Some (gd, gh, gm, gs))"

definition group_default :: "string option \<Rightarrow> string" where
  "group_default g = (case g of None \<Rightarrow> ''0'' | Some ds \<Rightarrow> ds)"

text \<open>
  The body of the \<^verbatim>\<open>try\<close>: the four conversions, in the order of the keyword
  arguments, then the constructor.
\<close>

definition make_timedelta :: "string \<Rightarrow> string \<Rightarrow> string \<Rightarrow> string \<Rightarrow> exn + timedelta" where
  "make_timedelta days hours minutes seconds =
     (case py_int days of Inl e \<Rightarrow> Inl e | Inr d \<Rightarrow>
     (case py_int hours of Inl e \<Rightarrow> Inl e | Inr h \<Rightarrow>
     (case py_int minutes of Inl e \<Rightarrow> Inl e | Inr m \<Rightarrow>
     (case py_int seconds of Inl e \<Rightarrow> Inl e | Inr s \<Rightarrow>
        timedelta_new d h m s))))"

definition parse_duration :: "string \<Rightarrow> exn + timedelta option" where
  "parse_duration duration_str =
     (case re_match (strip (lower duration_str)) of
        None \<Rightarrow> Inr None
      | Some (gd, gh, gm, gs) \<Rightarrow>
          (case make_timedelta (group_default gd) (group_default gh)
                               (group_default gm) (group_default gs) of
             Inr td \<Rightarrow> Inr (Some td)
           | Inl ValueError \<Rightarrow> Inr None
           | Inl e \<Rightarrow> Inl e))"

section \<open>The chat platform, the store and the environment\<close>

text \<open>
  The objects of the gateway client, reduced to what the punishment commands
  read. \<open>top_role\<close> is the rank of a member's highest role: the client orders
  roles totally, and the commands only compare ranks with \<^verbatim>\<open><=\<close>. \<open>owner_id\<close>
  is \<^verbatim>\<open>guild.owner_id\<close>, the id of the guild's owner. \<open>owner\<close> is the id of the
  member \<^verbatim>\<open>guild.owner\<close> returns, or None when the owner is not in the client's
  member cache (the bot starts with \<^verbatim>\<open>chunk_guilds_at_startup=False\<close>, and the
  server information command has a fallback for that case);
  members are compared by id.
\<close>

record member =
  member_id :: int
  top_role :: int

record role =
  role_id :: int
  role_name :: string

record guild =
  guild_id :: int
  owner_id :: int
  owner :: "int option"
  roles :: "role list"
  members :: "member list"
  text_channels :: "int list"
  voice_channels :: "int list"

record ctx =
  author :: member
  guild_of :: guild

record bot =
  bot_user_id :: int
  guilds :: "guild list"

text \<open>
  Every request a command makes to the outside, and every line it writes to
  its logger. An embed is kept as its title (without the emoji) and, for the
  confirmation, the infraction id it shows; a direct message as the receiving
  member and the embed's title. The three \<open>Db\<close> requests are the SQL statements
  of \<^verbatim>\<open>log_moderation_action\<close>, \<^verbatim>\<open>get_user\<close> and the \<^verbatim>\<open>UPDATE users SET warnings\<close>
  of \<^verbatim>\<open>warn\<close>.
\<close>

datatype call =
    CtxSend string
  | CtxSendEmbed string "int option"
  | MemberSend int string
  | MemberAddRoles int int
  | MemberRemoveRoles int int
  | MemberKick int
  | MemberBan int
  | GuildCreateRole string
  | ChannelSetPermissions int int
  | DbInsertLog int string
  | DbSelectUser int
  | DbUpdateWarnings int int
  | AsyncioSleep int
  | LoggerError string
  | LoggerInfo string
  | LoggerModeration string int int

record log_row =
  log_id :: int
  log_guild_id :: int
  log_user_id :: int
  log_moderator_id :: int
  action_type :: string
  reason :: "string option"
  duration :: "int option"

text \<open>
  The state a command runs in: the connection pool (\<open>pool\<close> is false when
  \<^verbatim>\<open>self.pool\<close> is None), the \<^verbatim>\<open>users\<close> table as a map from the user's id to the
  \<^verbatim>\<open>warnings\<close> column (an INTEGER that may be NULL), the \<^verbatim>\<open>moderation_logs\<close>
  table in insertion order with the next value of its SERIAL key, and the
  requests that have completed so far, oldest first.
\<close>

record world =
  pool :: bool
  users :: "int \<rightharpoonup> int option"
  moderation_logs :: "log_row list"
  next_id :: int
  trace :: "call list"

text \<open>
  The environment decides which requests fail: \<open>fault E c w\<close> is the exception
  the request \<open>c\<close> raises when made in state \<open>w\<close>, or None when it completes. It
  also chooses the id of a role it creates.
\<close>

record env =
  fault :: "call \<Rightarrow> world \<Rightarrow> exn option"
  new_role_id :: "world \<Rightarrow> int"

type_synonym 'a act = "world \<Rightarrow> (exn + 'a) \<times> world"

text \<open>Sequencing: an exception skips the rest and keeps the state reached.\<close>

definition then_do :: "'a act \<Rightarrow> ('a \<Rightarrow> 'b act) \<Rightarrow> 'b act" where
  "then_do m f w = (case m w of (Inl e, w') \<Rightarrow> (Inl e, w') | (Inr a, w') \<Rightarrow> f a w')"

definition log_event :: "call \<Rightarrow> world \<Rightarrow> world" where
  "log_event c w = w\<lparr>trace := trace w @ [c]\<rparr>"

definition perform :: "env \<Rightarrow> call \<Rightarrow> unit act" where
  "perform E c w =
     (case fault E c w of Some e \<Rightarrow> (Inl e, w) | None \<Rightarrow> (Inr (), log_event c w))"

definition logger :: "call \<Rightarrow> unit act" where
  "logger c w = (Inr (), log_event c w)"

definition ctx_send :: "env \<Rightarrow> string \<Rightarrow> unit act" where
  "ctx_send E msg = perform E (CtxSend msg)"

text \<open>
  \<^verbatim>\<open>try: await member.send(embed=...) except discord.Forbidden: pass\<close>
\<close>

definition try_dm :: "env \<Rightarrow> int \<Rightarrow> string \<Rightarrow> unit act" where
  "try_dm E mid title w =
     (case perform E (MemberSend mid title) w of
        (Inl e, w') \<Rightarrow> if e = Forbidden then (Inr (), w') else (Inl e, w')
      | (Inr u, w') \<Rightarrow> (Inr u, w'))"

section \<open>core/database.py\<close>

text \<open>
  \<open>fetchrow\<close> and \<open>execute\<close>: RuntimeError without a pool; otherwise the
  statement runs, and a failure is logged and raised again.
\<close>

definition fetchrow :: "env \<Rightarrow> call \<Rightarrow> unit act" where
  "fetchrow E q w =
     (if \<not> pool w then (Inl RuntimeError, w)
      else case fault E q w of
             Some e \<Rightarrow> (Inl e, log_event (LoggerError ''Database fetchrow error'') w)
           | None \<Rightarrow> (Inr (), log_event q w))"

definition execute :: "env \<Rightarrow> call \<Rightarrow> unit act" where
  "execute E q w =
     (if \<not> pool w then (Inl RuntimeError, w)
      else case fault E q w of
             Some e \<Rightarrow> (Inl e, log_event (LoggerError ''Database execute error'') w)
           | None \<Rightarrow> (Inr (), log_event q w))"

text \<open>
  \<^verbatim>\<open>INSERT INTO moderation_logs ... RETURNING id\<close>: the row gets the next value of
  the sequence, and the method returns it.
\<close>

definition log_moderation_action ::
  "env \<Rightarrow> int \<Rightarrow> int \<Rightarrow> int \<Rightarrow> string \<Rightarrow> string option \<Rightarrow> int option \<Rightarrow> (int option) act" where
  "log_moderation_action E gid uid mid atype rsn dur w =
     (case fetchrow E (DbInsertLog uid atype) w of
        (Inl e, w') \<Rightarrow> (Inl e, w')
      | (Inr _, w') \<Rightarrow>
          (Inr (Some (next_id w')),
           w'\<lparr>moderation_logs := moderation_logs w' @
                 [\<lparr>log_id = next_id w', log_guild_id = gid, log_user_id = uid,
                   log_moderator_id = mid, action_type = atype, reason = rsn,
                   duration = dur\<rparr>],
               next_id := next_id w' + 1\<rparr>))"

text \<open>\<^verbatim>\<open>SELECT * FROM users WHERE id = $1\<close>: the row as a dict, or None.\<close>

definition get_user :: "env \<Rightarrow> int \<Rightarrow> (int option option) act" where
  "get_user E uid w =
     (case fetchrow E (DbSelectUser uid) w of
        (Inl e, w') \<Rightarrow> (Inl e, w')
      | (Inr _, w') \<Rightarrow> (Inr (users w' uid), w'))"

text \<open>
  \<^verbatim>\<open>UPDATE users SET warnings = $1 WHERE id = $2\<close>. The column is a 32-bit
  INTEGER: a value outside its range is refused by the driver (DataError). The
  statement changes the row of that id when there is one, and nothing otherwise.
\<close>

definition update_warnings :: "env \<Rightarrow> int \<Rightarrow> int \<Rightarrow> unit act" where
  "update_warnings E new_warnings uid w =
     (if \<not> pool w then (Inl RuntimeError, w)
      else if new_warnings < - 2147483648 \<or> 2147483647 < new_warnings
      then (Inl DataError, log_event (LoggerError ''Database execute error'') w)
      else case execute E (DbUpdateWarnings new_warnings uid) w of
             (Inl e, w') \<Rightarrow> (Inl e, w')
           | (Inr _, w') \<Rightarrow>
               (Inr (),
                (case users w' uid of
                   None \<Rightarrow> w'
                 | Some _ \<Rightarrow> w'\<lparr>users := (users w')(uid \<mapsto> Some new_warnings)\<rparr>)))"

section \<open>cogs/moderation/punishment_system.py\<close>

subsection \<open>The authority checks\<close>

text \<open>\<^verbatim>\<open>ctx.author != ctx.guild.owner\<close> is false exactly when the owner is the author.\<close>

definition author_is_owner :: "ctx \<Rightarrow> bool" where
  "author_is_owner c = (owner (guild_of c) = Some (member_id (author c)))"

subsection \<open>warn\<close>

text \<open>
  The body of the \<^verbatim>\<open>try\<close>. \<open>user_data\<close> is the row of the member, a dict that
  always has the key \<^verbatim>\<open>warnings\<close>; adding 1 to a NULL counter raises TypeError.
  Without a row nothing is written.
\<close>

definition warn_try :: "env \<Rightarrow> ctx \<Rightarrow> member \<Rightarrow> string \<Rightarrow> unit act" where
  "warn_try E c m rsn =
     then_do (try_dm E (member_id m) ''Warning'') (\<lambda>_.
     then_do (log_moderation_action E (guild_id (guild_of c)) (member_id m)
                (member_id (author c)) ''warn'' (Some rsn) None) (\<lambda>infraction_id.
     then_do (get_user E (member_id m)) (\<lambda>user_data.
     then_do (case user_data of
                None \<Rightarrow> (\<lambda>w. (Inr (), w))
              | Some None \<Rightarrow> (\<lambda>w. (Inl TypeError, w))
              | Some (Some warnings) \<Rightarrow> update_warnings E (warnings + 1) (member_id m)) (\<lambda>_.
     then_do (perform E (CtxSendEmbed ''User Warned'' infraction_id)) (\<lambda>_.
     logger (LoggerModeration ''warn'' (member_id (author c)) (member_id m)))))))"

definition warn_except :: "env \<Rightarrow> (exn + unit) \<times> world \<Rightarrow> (exn + unit) \<times> world" where
  "warn_except E rw =
     (case rw of
        (Inr u, w') \<Rightarrow> (Inr u, w')
      | (Inl e, w') \<Rightarrow>
          ctx_send E ''An error occurred while trying to warn the user.''
            (log_event (LoggerError ''Error warning user'') w'))"

definition warn_execute :: "env \<Rightarrow> bot \<Rightarrow> ctx \<Rightarrow> member \<Rightarrow> string \<Rightarrow> unit act" where
  "warn_execute E b c m rsn w = warn_except E (warn_try E c m rsn w)"

definition warn :: "env \<Rightarrow> bot \<Rightarrow> ctx \<Rightarrow> member \<Rightarrow> string \<Rightarrow> unit act" where
  "warn E b c m rsn w =
     (if member_id m = member_id (author c) then ctx_send E ''You cannot warn yourself.'' w
      else if member_id m = bot_user_id b then ctx_send E ''I cannot warn myself.'' w
      else if top_role (author c) \<le> top_role m \<and> \<not> author_is_owner c
      then ctx_send E ''You cannot warn someone with a higher or equal role.'' w
      else warn_execute E b c m rsn w)"

subsection \<open>schedule_unmute\<close>

text \<open>
  The names bound in the module's namespace: those of its import statements
  and its own two definitions. A name that is neither here nor a builtin
  raises NameError when it is evaluated.
\<close>

definition module_globals :: "string list" where
  "module_globals =
     [''discord'', ''commands'', ''logging'', ''datetime'', ''timedelta'',
      ''is_mod_or_admin'', ''create_embed'', ''parse_duration'', ''BotLogger'',
      ''PunishmentSystem'', ''setup'']"

definition load_global :: "string \<Rightarrow> exn + unit" where
  "load_global name = (if name \<in> set module_globals then Inr () else Inl NameError)"

definition get_member :: "guild \<Rightarrow> int \<Rightarrow> member option" where
  "get_member g uid = find (\<lambda>m. member_id m = uid) (members g)"

definition get_role :: "guild \<Rightarrow> int \<Rightarrow> role option" where
  "get_role g rid = find (\<lambda>r. role_id r = rid) (roles g)"

definition unmute_try :: "env \<Rightarrow> int \<Rightarrow> int \<Rightarrow> unit act" where
  "unmute_try E uid rid =
     then_do (perform E (MemberRemoveRoles uid rid)) (\<lambda>_.
     then_do (try_dm E uid ''Unmuted'') (\<lambda>_.
     logger (LoggerInfo ''Auto-unmuted user'')))"

text \<open>
  The loop over \<^verbatim>\<open>self.bot.guilds\<close>: it stops (\<^verbatim>\<open>break\<close>) after the first removal
  that succeeds; a failure is logged and the loop goes on.
\<close>

fun unmute_loop :: "env \<Rightarrow> guild list \<Rightarrow> int \<Rightarrow> int \<Rightarrow> unit act" where
  "unmute_loop E [] uid rid w = (Inr (), w)"
| "unmute_loop E (g # gs) uid rid w =
     (case get_member g uid of
        None \<Rightarrow> unmute_loop E gs uid rid w
      | Some m \<Rightarrow>
          (case get_role g rid of
             None \<Rightarrow> unmute_loop E gs uid rid w
           | Some r \<Rightarrow>
               (case unmute_try E uid rid w of
                  (Inr _, w') \<Rightarrow> (Inr (), w')
                | (Inl e, w') \<Rightarrow>
                    unmute_loop E gs uid rid
                      (log_event (LoggerError ''Error auto-unmuting user'') w'))))"

text \<open>
  The first statement is \<^verbatim>\<open>await asyncio.sleep(duration_seconds)\<close>: the name
  \<^verbatim>\<open>asyncio\<close> is looked up before anything is awaited.
\<close>

definition schedule_unmute :: "env \<Rightarrow> bot \<Rightarrow> int \<Rightarrow> int \<Rightarrow> int \<Rightarrow> unit act" where
  "schedule_unmute E b uid rid duration_seconds w =
     (case load_global ''asyncio'' of
        Inl e \<Rightarrow> (Inl e, w)
      | Inr _ \<Rightarrow>
          then_do (logger (AsyncioSleep duration_seconds))
            (\<lambda>_. unmute_loop E (guilds b) uid rid) w)"

subsection \<open>mute\<close>

fun contains :: "string \<Rightarrow> string \<Rightarrow> bool" where
  "contains sub [] = (sub = [])"
| "contains sub (c # cs) = (take (length sub) (c # cs) = sub \<or> contains sub cs)"

definition find_mute_role :: "guild \<Rightarrow> role option" where
  "find_mute_role g =
     find (\<lambda>r. contains ''mute'' (lower (role_name r)) \<or>
                contains ''muted'' (lower (role_name r))) (roles g)"

fun set_permissions_all :: "env \<Rightarrow> int list \<Rightarrow> int \<Rightarrow> unit act" where
  "set_permissions_all E [] rid w = (Inr (), w)"
| "set_permissions_all E (ch # chs) rid w =
     (case perform E (ChannelSetPermissions ch rid) w of
        (Inl e, w') \<Rightarrow> (Inl e, w')
      | (Inr _, w') \<Rightarrow> set_permissions_all E chs rid w')"

text \<open>The \<^verbatim>\<open>try\<close> that creates the role when the guild has none.\<close>

definition create_mute_role :: "env \<Rightarrow> ctx \<Rightarrow> role act" where
  "create_mute_role E c w =
     (let mute_role = \<lparr>role_id = new_role_id E w, role_name = ''Muted''\<rparr>
      in then_do (perform E (GuildCreateRole ''Muted'')) (\<lambda>_.
         then_do (set_permissions_all E (text_channels (guild_of c)) (role_id mute_role)) (\<lambda>_.
         then_do (set_permissions_all E (voice_channels (guild_of c)) (role_id mute_role)) (\<lambda>_.
         then_do (ctx_send E ''Created Muted role'') (\<lambda>_.
         (\<lambda>w'. (Inr mute_role, w')))))) w)"

text \<open>The body of the second \<^verbatim>\<open>try\<close>, ending with the awaited \<open>schedule_unmute\<close>.\<close>

definition mute_try ::
  "env \<Rightarrow> bot \<Rightarrow> ctx \<Rightarrow> member \<Rightarrow> string \<Rightarrow> role \<Rightarrow> timedelta \<Rightarrow> unit act" where
  "mute_try E b c m rsn mute_role parsed_duration =
     then_do (perform E (MemberAddRoles (member_id m) (role_id mute_role))) (\<lambda>_.
     then_do (try_dm E (member_id m) ''Muted'') (\<lambda>_.
     then_do (log_moderation_action E (guild_id (guild_of c)) (member_id m)
                (member_id (author c)) ''mute'' (Some rsn)
                (Some (total_seconds parsed_duration))) (\<lambda>infraction_id.
     then_do (perform E (CtxSendEmbed ''User Muted'' infraction_id)) (\<lambda>_.
     then_do (logger (LoggerModeration ''mute'' (member_id (author c)) (member_id m))) (\<lambda>_.
     schedule_unmute E b (member_id m) (role_id mute_role)
       (total_seconds parsed_duration))))))"

definition mute_except :: "env \<Rightarrow> (exn + unit) \<times> world \<Rightarrow> (exn + unit) \<times> world" where
  "mute_except E rw =
     (case rw of
        (Inr u, w') \<Rightarrow> (Inr u, w')
      | (Inl e, w') \<Rightarrow>
          if e = Forbidden then ctx_send E ''I don't have permission to mute this user.'' w'
          else ctx_send E ''An error occurred while trying to mute the user.''
                 (log_event (LoggerError ''Error muting user'') w'))"

text \<open>From the search for the mute role on.\<close>

definition mute_execute ::
  "env \<Rightarrow> bot \<Rightarrow> ctx \<Rightarrow> member \<Rightarrow> string \<Rightarrow> timedelta \<Rightarrow> unit act" where
  "mute_execute E b c m rsn parsed_duration w =
     (case find_mute_role (guild_of c) of
        Some mute_role \<Rightarrow> mute_except E (mute_try E b c m rsn mute_role parsed_duration w)
      | None \<Rightarrow>
          (case create_mute_role E c w of
             (Inr mute_role, w') \<Rightarrow>
               mute_except E (mute_try E b c m rsn mute_role parsed_duration w')
           | (Inl e, w') \<Rightarrow>
               if e = Forbidden
               then ctx_send E ''I don't have permission to create a mute role.'' w'
               else ctx_send E ''Error creating mute role.''
                      (log_event (LoggerError ''Error creating mute role'') w')))"

text \<open>
  From \<^verbatim>\<open>parse_duration(duration)\<close> on. The call is outside every \<^verbatim>\<open>try\<close>, so an
  exception it raises leaves the command. \<^verbatim>\<open>not parsed_duration\<close> holds for None
  and for the zero duration.
\<close>

definition mute_validate ::
  "env \<Rightarrow> bot \<Rightarrow> ctx \<Rightarrow> member \<Rightarrow> string \<Rightarrow> string \<Rightarrow> unit act" where
  "mute_validate E b c m dur rsn w =
     (case parse_duration dur of
        Inl e \<Rightarrow> (Inl e, w)
      | Inr None \<Rightarrow>
          ctx_send E ''Invalid duration format. Use formats like: 1h, 30m, 1d, 2h30m'' w
      | Inr (Some parsed_duration) \<Rightarrow>
          if \<not> td_bool parsed_duration
          then ctx_send E ''Invalid duration format. Use formats like: 1h, 30m, 1d, 2h30m'' w
          else if total_seconds parsed_duration > 2419200
          then ctx_send E ''Maximum mute duration is 28 days.'' w
          else mute_execute E b c m rsn parsed_duration w)"

definition mute :: "env \<Rightarrow> bot \<Rightarrow> ctx \<Rightarrow> member \<Rightarrow> string \<Rightarrow> string \<Rightarrow> unit act" where
  "mute E b c m dur rsn w =
     (if member_id m = member_id (author c) then ctx_send E ''You cannot mute yourself.'' w
      else if member_id m = bot_user_id b then ctx_send E ''I cannot mute myself.'' w
      else if top_role (author c) \<le> top_role m \<and> \<not> author_is_owner c
      then ctx_send E ''You cannot mute someone with a higher or equal role.'' w
      else mute_validate E b c m dur rsn w)"

subsection \<open>kick and ban\<close>

definition kick_try :: "env \<Rightarrow> ctx \<Rightarrow> member \<Rightarrow> string \<Rightarrow> unit act" where
  "kick_try E c m rsn =
     then_do (try_dm E (member_id m) ''Kicked'') (\<lambda>_.
     then_do (perform E (MemberKick (member_id m))) (\<lambda>_.
     then_do (log_moderation_action E (guild_id (guild_of c)) (member_id m)
                (member_id (author c)) ''kick'' (Some rsn) None) (\<lambda>infraction_id.
     then_do (perform E (CtxSendEmbed ''User Kicked'' infraction_id)) (\<lambda>_.
     logger (LoggerModeration ''kick'' (member_id (author c)) (member_id m))))))"

definition kick_except :: "env \<Rightarrow> (exn + unit) \<times> world \<Rightarrow> (exn + unit) \<times> world" where
  "kick_except E rw =
     (case rw of
        (Inr u, w') \<Rightarrow> (Inr u, w')
      | (Inl e, w') \<Rightarrow>
          if e = Forbidden then ctx_send E ''I don't have permission to kick this user.'' w'
          else ctx_send E ''An error occurred while trying to kick the user.''
                 (log_event (LoggerError ''Error kicking user'') w'))"

definition kick_execute :: "env \<Rightarrow> bot \<Rightarrow> ctx \<Rightarrow> member \<Rightarrow> string \<Rightarrow> unit act" where
  "kick_execute E b c m rsn w = kick_except E (kick_try E c m rsn w)"

definition kick :: "env \<Rightarrow> bot \<Rightarrow> ctx \<Rightarrow> member \<Rightarrow> string \<Rightarrow> unit act" where
  "kick E b c m rsn w =
     (if member_id m = member_id (author c) then ctx_send E ''You cannot kick yourself.'' w
      else if member_id m = bot_user_id b then ctx_send E ''I cannot kick myself.'' w
      else if top_role (author c) \<le> top_role m \<and> \<not> author_is_owner c
      then ctx_send E ''You cannot kick someone with a higher or equal role.'' w
      else kick_execute E b c m rsn w)"

definition ban_try :: "env \<Rightarrow> ctx \<Rightarrow> member \<Rightarrow> string \<Rightarrow> unit act" where
  "ban_try E c m rsn =
     then_do (try_dm E (member_id m) ''Banned'') (\<lambda>_.
     then_do (perform E (MemberBan (member_id m))) (\<lambda>_.
     then_do (log_moderation_action E (guild_id (guild_of c)) (member_id m)
                (member_id (author c)) ''ban'' (Some rsn) None) (\<lambda>infraction_id.
     then_do (perform E (CtxSendEmbed ''User Banned'' infraction_id)) (\<lambda>_.
     logger (LoggerModeration ''ban'' (member_id (author c)) (member_id m))))))"

definition ban_except :: "env \<Rightarrow> (exn + unit) \<times> world \<Rightarrow> (exn + unit) \<times> world" where
  "ban_except E rw =
     (case rw of
        (Inr u, w') \<Rightarrow> (Inr u, w')
      | (Inl e, w') \<Rightarrow>
          if e = Forbidden then ctx_send E ''I don't have permission to ban this user.'' w'
          else ctx_send E ''An error occurred while trying to ban the user.''
                 (log_event (LoggerError ''Error banning user'') w'))"

definition ban_execute :: "env \<Rightarrow> bot \<Rightarrow> ctx \<Rightarrow> member \<Rightarrow> string \<Rightarrow> unit act" where
  "ban_execute E b c m rsn w = ban_except E (ban_try E c m rsn w)"

definition ban :: "env \<Rightarrow> bot \<Rightarrow> ctx \<Rightarrow> member \<Rightarrow> string \<Rightarrow> unit act" where
  "ban E b c m rsn w =
     (if member_id m = member_id (author c) then ctx_send E ''You cannot ban yourself.'' w
      else if member_id m = bot_user_id b then ctx_send E ''I cannot ban myself.'' w
      else if top_role (author c) \<le> top_role m \<and> \<not> author_is_owner c
      then ctx_send E ''You cannot ban someone with a higher or equal role.'' w
      else ban_execute E b c m rsn w)"

section \<open>Vocabulary of the statements\<close>

text \<open>
  The four punishment commands behind one name, and the part of each command
  that follows its three authority checks.
\<close>

datatype command = Warn | Mute string | Kick | Ban

definition punish :: "env \<Rightarrow> bot \<Rightarrow> ctx \<Rightarrow> member \<Rightarrow> string \<Rightarrow> command \<Rightarrow> unit act" where
  "punish E b c m rsn cmd =
     (case cmd of
        Warn \<Rightarrow> warn E b c m rsn
      | Mute dur \<Rightarrow> mute E b c m dur rsn
      | Kick \<Rightarrow> kick E b c m rsn
      | Ban \<Rightarrow> ban E b c m rsn)"

definition after_checks :: "env \<Rightarrow> bot \<Rightarrow> ctx \<Rightarrow> member \<Rightarrow> string \<Rightarrow> command \<Rightarrow> unit act" where
  "after_checks E b c m rsn cmd =
     (case cmd of
        Warn \<Rightarrow> warn_execute E b c m rsn
      | Mute dur \<Rightarrow> mute_validate E b c m dur rsn
      | Kick \<Rightarrow> kick_execute E b c m rsn
      | Ban \<Rightarrow> ban_execute E b c m rsn)"

definition verb :: "command \<Rightarrow> string" where
  "verb cmd = (case cmd of Warn \<Rightarrow> ''warn'' | Mute _ \<Rightarrow> ''mute'' | Kick \<Rightarrow> ''kick'' | Ban \<Rightarrow> ''ban'')"

definition self_msg :: "command \<Rightarrow> string" where
  "self_msg cmd = ''You cannot '' @ verb cmd @ '' yourself.''"

definition bot_msg :: "command \<Rightarrow> string" where
  "bot_msg cmd = ''I cannot '' @ verb cmd @ '' myself.''"

definition hierarchy_msg :: "command \<Rightarrow> string" where
  "hierarchy_msg cmd = ''You cannot '' @ verb cmd @ '' someone with a higher or equal role.''"

definition forbidden_msg :: "command \<Rightarrow> string" where
  "forbidden_msg cmd = ''I don't have permission to '' @ verb cmd @ '' this user.''"

definition generic_msg :: "command \<Rightarrow> string" where
  "generic_msg cmd = ''An error occurred while trying to '' @ verb cmd @ '' the user.''"

text \<open>The three authority checks all pass.\<close>

definition authority_ok :: "bot \<Rightarrow> ctx \<Rightarrow> member \<Rightarrow> bool" where
  "authority_ok b c m =
     (member_id m \<noteq> member_id (author c) \<and> member_id m \<noteq> bot_user_id b \<and>
      (top_role m < top_role (author c) \<or> author_is_owner c))"

text \<open>
  The requests that change something outside the bot: a member's roles, the
  membership, the guild's roles and channel overrides, the two tables.
\<close>

fun is_mutation :: "call \<Rightarrow> bool" where
  "is_mutation (MemberAddRoles _ _) = True"
| "is_mutation (MemberRemoveRoles _ _) = True"
| "is_mutation (MemberKick _) = True"
| "is_mutation (MemberBan _) = True"
| "is_mutation (GuildCreateRole _) = True"
| "is_mutation (ChannelSetPermissions _ _) = True"
| "is_mutation (DbInsertLog _ _) = True"
| "is_mutation (DbUpdateWarnings _ _) = True"
| "is_mutation _ = False"

text \<open>Between \<open>w\<close> and \<open>w'\<close> no such request completed and no table changed.\<close>

definition untouched :: "world \<Rightarrow> world \<Rightarrow> bool" where
  "untouched w w' =
     (users w' = users w \<and> moderation_logs w' = moderation_logs w \<and>
      next_id w' = next_id w \<and>
      filter is_mutation (trace w') = filter is_mutation (trace w))"

fun is_remove_roles :: "call \<Rightarrow> bool" where
  "is_remove_roles (MemberRemoveRoles _ _) = True"
| "is_remove_roles _ = False"

text \<open>An action leaves an observation of the state as it was.\<close>

definition keeps :: "(world \<Rightarrow> 'x) \<Rightarrow> 'a act \<Rightarrow> bool" where
  "keeps obs act = (\<forall>w. obs (snd (act w)) = obs w)"

text \<open>The channel of the command accepts every message; nothing fails at all.\<close>

definition sends_ok :: "env \<Rightarrow> bool" where
  "sends_ok E =
     (\<forall>w. (\<forall>msg. fault E (CtxSend msg) w = None) \<and>
          (\<forall>title i. fault E (CtxSendEmbed title i) w = None))"

definition no_faults :: "env \<Rightarrow> bool" where
  "no_faults E = (\<forall>c w. fault E c w = None)"

text \<open>
  Strings of the form \<^verbatim>\<open>(\d+d)?(\d+h)?(\d+m)?(\d+s)?\<close>: each group is absent or a
  run of digits followed by its unit.
\<close>

definition unit_part :: "string option \<Rightarrow> char \<Rightarrow> string" where
  "unit_part g u = (case g of None \<Rightarrow> [] | Some ds \<Rightarrow> ds @ [u])"

definition duration_form ::
  "string option \<Rightarrow> string option \<Rightarrow> string option \<Rightarrow> string option \<Rightarrow> string" where
  "duration_form gd gh gm gs =
     unit_part gd (CHR ''d'') @ unit_part gh (CHR ''h'') @
     unit_part gm (CHR ''m'') @ unit_part gs (CHR ''s'')"

definition group_ok :: "string option \<Rightarrow> bool" where
  "group_ok g =
     (case g of
        None \<Rightarrow> True
      | Some ds \<Rightarrow> ds \<noteq> [] \<and> list_all is_digit ds \<and> length ds \<le> int_max_str_digits)"

definition group_val :: "string option \<Rightarrow> int" where
  "group_val g = (case g of None \<Rightarrow> 0 | Some ds \<Rightarrow> digits_val ds)"

text \<open>
  What a command leaves behind when its platform side effect was refused with
  the exception \<open>e\<close> in the state \<open>w0\<close>: \<open>w0\<close> and the report of the error, which
  is the permission message for \<open>Forbidden\<close>, and the logger's line followed by
  the generic message for any other exception.
\<close>

definition error_log :: "command \<Rightarrow> string" where
  "error_log cmd =
     (case cmd of
        Warn \<Rightarrow> ''Error warning user''
      | Mute _ \<Rightarrow> ''Error muting user''
      | Kick \<Rightarrow> ''Error kicking user''
      | Ban \<Rightarrow> ''Error banning user'')"

definition reported_failure :: "command \<Rightarrow> exn \<Rightarrow> world \<Rightarrow> world" where
  "reported_failure cmd e w0 =
     (if e = Forbidden then log_event (CtxSend (forbidden_msg cmd)) w0
      else log_event (CtxSend (generic_msg cmd)) (log_event (LoggerError (error_log cmd)) w0))"

subsection \<open>A small guild for the concrete instances\<close>

definition moderator :: member where
  "moderator = \<lparr>member_id = 5, top_role = 6\<rparr>"

definition target :: member where
  "target = \<lparr>member_id = 42, top_role = 5\<rparr>"

definition peer :: member where
  "peer = \<lparr>member_id = 43, top_role = 6\<rparr>"

definition junior :: member where
  "junior = \<lparr>member_id = 44, top_role = 5\<rparr>"

definition the_owner :: member where
  "the_owner = \<lparr>member_id = 1, top_role = 5\<rparr>"

definition example_guild :: guild where
  "example_guild =
     \<lparr>guild_id = 100, owner_id = 1, owner = Some 1,
      roles = [\<lparr>role_id = 3, role_name = ''Members''\<rparr>, \<lparr>role_id = 7, role_name = ''Muted''\<rparr>],
      members = [the_owner, moderator, target, peer, junior],
      text_channels = [10], voice_channels = [11]\<rparr>"

definition example_ctx :: ctx where
  "example_ctx = \<lparr>author = moderator, guild_of = example_guild\<rparr>"

definition junior_ctx :: ctx where
  "junior_ctx = \<lparr>author = junior, guild_of = example_guild\<rparr>"

definition owner_ctx :: ctx where
  "owner_ctx = \<lparr>author = the_owner, guild_of = example_guild\<rparr>"

text \<open>The same guild while its owner is not in the member cache.\<close>

definition uncached_guild :: guild where
  "uncached_guild = example_guild\<lparr>owner := None, members := [moderator, target, peer, junior]\<rparr>"

definition uncached_owner_ctx :: ctx where
  "uncached_owner_ctx = \<lparr>author = the_owner, guild_of = uncached_guild\<rparr>"

definition example_bot :: bot where
  "example_bot = \<lparr>bot_user_id = 99, guilds = [example_guild]\<rparr>"

definition quiet_env :: env where
  "quiet_env = \<lparr>fault = (\<lambda>c w. None), new_role_id = (\<lambda>w. 1000)\<rparr>"

definition refusing_env :: env where
  "refusing_env =
     \<lparr>fault = (\<lambda>c w. case c of
                 MemberAddRoles _ _ \<Rightarrow> Some Forbidden
               | MemberKick _ \<Rightarrow> Some Forbidden
               | MemberBan _ \<Rightarrow> Some HTTPException
               | _ \<Rightarrow> None),
      new_role_id = (\<lambda>w. 1000)\<rparr>"

definition fresh_world :: world where
  "fresh_world =
     \<lparr>pool = True, users = Map.empty, moderation_logs = [], next_id = 1, trace = []\<rparr>"

definition known_world :: world where
  "known_world =
     \<lparr>pool = True, users = [42 \<mapsto> Some 0], moderation_logs = [], next_id = 1, trace = []\<rparr>"

section \<open>parse_duration: what the pattern captures\<close>

lemma digit_run_split:
  "list_all is_digit ds \<Longrightarrow> \<not> is_digit c \<Longrightarrow>
   takeWhile is_digit (ds @ c # r) = ds \<and> dropWhile is_digit (ds @ c # r) = c # r"
  by (induction ds) auto

lemma match_group_hit:
  "ds \<noteq> [] \<Longrightarrow> list_all is_digit ds \<Longrightarrow> \<not> is_digit u \<Longrightarrow>
   match_group u (ds @ u # r) = (Some ds, r)"
  by (simp add: match_group_def digit_run_split)

lemma match_group_nil: "match_group u [] = (None, [])"
  by (simp add: match_group_def)

lemma match_group_skip:
  "list_all is_digit ds \<Longrightarrow> \<not> is_digit c \<Longrightarrow> c \<noteq> u \<Longrightarrow>
   match_group u (ds @ c # r) = (None, ds @ c # r)"
  by (simp add: match_group_def digit_run_split)

lemma unit_not_digit:
  "\<not> is_digit (CHR ''d'')" "\<not> is_digit (CHR ''h'')" "\<not> is_digit (CHR ''m'')" "\<not> is_digit (CHR ''s'')"
  by (simp_all add: is_digit_def)

lemma re_match_form:
  assumes "group_ok gd" "group_ok gh" "group_ok gm" "group_ok gs"
  shows "re_match (duration_form gd gh gm gs) = Some (gd, gh, gm, gs)"
  using assms
  by (cases gd; cases gh; cases gm; cases gs)
     (simp_all add: re_match_def duration_form_def unit_part_def group_ok_def
        match_group_hit match_group_nil match_group_skip unit_not_digit)

lemma digits_val_foldl_nonneg:
  "list_all is_digit ds \<Longrightarrow> 0 \<le> a \<Longrightarrow> 0 \<le> foldl (\<lambda>acc c. 10 * acc + digit_val c) a ds"
  by (induction ds arbitrary: a) (auto simp: is_digit_def digit_val_def Let_def)

lemma digits_val_nonneg: "list_all is_digit ds \<Longrightarrow> 0 \<le> digits_val ds"
  by (simp add: digits_val_def digits_val_foldl_nonneg)

lemma group_val_nonneg: "group_ok g \<Longrightarrow> 0 \<le> group_val g"
  by (cases g) (simp_all add: group_ok_def group_val_def digits_val_nonneg)

lemma py_int_group: "group_ok g \<Longrightarrow> py_int (group_default g) = Inr (group_val g)"
  by (cases g)
     (simp_all add: group_ok_def group_val_def group_default_def py_int_def
        int_max_str_digits_def digits_val_def digit_val_def)

lemma timedelta_new_in_range:
  assumes "0 \<le> d * 86400 + h * 3600 + m * 60 + s"
    and "(d * 86400 + h * 3600 + m * 60 + s) div 86400 \<le> 999999999"
  shows "\<exists>td. timedelta_new d h m s = Inr td \<and>
           total_seconds td = d * 86400 + h * 3600 + m * 60 + s"
proof -
  let ?t = "d * 86400 + h * 3600 + m * 60 + s"
  have "0 \<le> ?t div 86400" using assms(1) by (simp add: pos_imp_zdiv_nonneg_iff)
  with assms(2) have "\<not> \<bar>?t div 86400\<bar> > 999999999" by simp
  then show ?thesis
    by (simp add: timedelta_new_def total_seconds_def Let_def)
qed

text \<open>
  C3. The claim: \<open>parse_duration\<close> applied to the empty string, to "abc" and
  to "90" returns the parse error (None). The code does not: the pattern
  matches the empty prefix of every string, the four captures default to "0",
  and the result is the zero duration. The docstring promises None for an
  invalid string, and \<^verbatim>\<open>if not match: return None\<close> is there to give it, but
  never runs. Evaluated at the three inputs:
\<close>

theorem parse_duration_no_pairs:
  "parse_duration '''' = Inr (Some \<lparr>td_days = 0, td_seconds = 0, td_microseconds = 0\<rparr>) \<and>
   parse_duration ''abc'' = Inr (Some \<lparr>td_days = 0, td_seconds = 0, td_microseconds = 0\<rparr>) \<and>
   parse_duration ''90'' = Inr (Some \<lparr>td_days = 0, td_seconds = 0, td_microseconds = 0\<rparr>)"
  by code_simp

text \<open>
  C5. The claim: when the total in seconds does not fit a 64-bit count,
  \<open>parse_duration\<close> returns the parse error. At 2^63 seconds the constructor
  of \<^verbatim>\<open>timedelta\<close> raises OverflowError, which \<^verbatim>\<open>except ValueError\<close> does not
  catch: the exception leaves \<open>parse_duration\<close>.
\<close>

theorem parse_duration_overflow_raises:
  "parse_duration ''9223372036854775808s'' = Inl OverflowError"
  by code_simp

text \<open>
  C6, as stated: every string of the form \<^verbatim>\<open>(\d+d)?(\d+h)?(\d+m)?(\d+s)?\<close> with a
  group present yields the duration of 86400*d + 3600*h + 60*m + s seconds.
  A \<^verbatim>\<open>timedelta\<close> holds at most 999999999 days, so no duration is returned for
  one day more.
\<close>

theorem parse_duration_days_counterexample:
  "parse_duration ''1000000000d'' = Inl OverflowError"
  by code_simp

text \<open>
  C6, amended: for every string that, lower-cased and stripped, has the form
  \<^verbatim>\<open>(\d+d)?(\d+h)?(\d+m)?(\d+s)?\<close> with at least one group present, each number
  of at most 4300 digits, and a total of at most 999999999 whole days,
  \<open>parse_duration\<close> returns a duration of 86400*d + 3600*h + 60*m + s seconds.
\<close>

theorem parse_duration_total:
  assumes form: "strip (lower s) = duration_form gd gh gm gs"
    and ok: "group_ok gd" "group_ok gh" "group_ok gm" "group_ok gs"
    and present: "gd \<noteq> None \<or> gh \<noteq> None \<or> gm \<noteq> None \<or> gs \<noteq> None"
    and range: "(86400 * group_val gd + 3600 * group_val gh + 60 * group_val gm + group_val gs)
                  div 86400 \<le> 999999999"
  shows "\<exists>td. parse_duration s = Inr (Some td) \<and>
           total_seconds td =
             86400 * group_val gd + 3600 * group_val gh + 60 * group_val gm + group_val gs"
proof -
  let ?d = "group_val gd" and ?h = "group_val gh" and ?m = "group_val gm" and ?s = "group_val gs"
  have nonneg: "0 \<le> ?d * 86400 + ?h * 3600 + ?m * 60 + ?s"
    using ok group_val_nonneg by simp
  have rng: "(?d * 86400 + ?h * 3600 + ?m * 60 + ?s) div 86400 \<le> 999999999"
    using range by (simp add: mult.commute)
  obtain td where td: "timedelta_new ?d ?h ?m ?s = Inr td"
    "total_seconds td = ?d * 86400 + ?h * 3600 + ?m * 60 + ?s"
    using timedelta_new_in_range [OF nonneg rng] by blast
  have "make_timedelta (group_default gd) (group_default gh) (group_default gm) (group_default gs)
          = Inr td"
    using ok td(1) by (simp add: make_timedelta_def py_int_group)
  then have "parse_duration s = Inr (Some td)"
    using form ok by (simp add: parse_duration_def re_match_form)
  with td(2) show ?thesis by (simp add: mult.commute)
qed

text \<open>The instance "1d2h30m": 95400 seconds.\<close>

theorem parse_duration_total_witness:
  "\<exists>td. parse_duration ''1d2h30m'' = Inr (Some td) \<and> total_seconds td = 95400"
proof -
  have form: "strip (lower ''1d2h30m'') = duration_form (Some ''1'') (Some ''2'') (Some ''30'') None"
    by code_simp
  have ok: "group_ok (Some ''1'')" "group_ok (Some ''2'')" "group_ok (Some ''30'')" "group_ok None"
    by (simp_all add: group_ok_def is_digit_def int_max_str_digits_def)
  have vals: "group_val (Some ''1'') = 1" "group_val (Some ''2'') = 2"
    "group_val (Some ''30'') = 30" "group_val None = 0"
    by (simp_all add: group_val_def digits_val_def digit_val_def)
  show ?thesis
    using parse_duration_total [OF form ok] by (simp add: vals)
qed

section \<open>The authority checks of the four commands\<close>

lemma ctx_send_cases:
  "ctx_send E msg w = (Inr (), log_event (CtxSend msg) w) \<or> (\<exists>e. ctx_send E msg w = (Inl e, w))"
  by (simp add: ctx_send_def perform_def split: option.splits)

lemma untouched_ctx_send: "untouched w (snd (ctx_send E msg w))"
  using ctx_send_cases [of E msg w] by (auto simp: untouched_def log_event_def)

lemma punish_self:
  "member_id m = member_id (author c) \<Longrightarrow>
   punish E b c m rsn cmd w = ctx_send E (self_msg cmd) w"
  by (cases cmd) (simp_all add: punish_def warn_def mute_def kick_def ban_def self_msg_def verb_def)

lemma punish_bot:
  "member_id m \<noteq> member_id (author c) \<Longrightarrow> member_id m = bot_user_id b \<Longrightarrow>
   punish E b c m rsn cmd w = ctx_send E (bot_msg cmd) w"
  by (cases cmd) (simp_all add: punish_def warn_def mute_def kick_def ban_def bot_msg_def verb_def)

lemma punish_hierarchy:
  "member_id m \<noteq> member_id (author c) \<Longrightarrow> member_id m \<noteq> bot_user_id b \<Longrightarrow>
   top_role (author c) \<le> top_role m \<Longrightarrow> \<not> author_is_owner c \<Longrightarrow>
   punish E b c m rsn cmd w = ctx_send E (hierarchy_msg cmd) w"
  by (cases cmd)
     (simp_all add: punish_def warn_def mute_def kick_def ban_def hierarchy_msg_def verb_def)

lemma punish_authorised:
  "authority_ok b c m \<Longrightarrow> punish E b c m rsn cmd w = after_checks E b c m rsn cmd w"
  by (cases cmd)
     (auto simp: authority_ok_def punish_def after_checks_def warn_def mute_def kick_def ban_def)

text \<open>
  C9. For warn, mute, kick and ban alike: when the target is the actor or the
  bot itself the whole command is one \<^verbatim>\<open>ctx.send\<close> of the rejection, whatever
  the ranks and whoever owns the guild; no role change, kick, ban, audit write
  or counter update is made.
\<close>

theorem self_and_bot_target_rejected:
  assumes "member_id m = member_id (author c) \<or> member_id m = bot_user_id b"
  shows "punish E b c m rsn cmd w =
           ctx_send E (if member_id m = member_id (author c) then self_msg cmd else bot_msg cmd) w
         \<and> untouched w (snd (punish E b c m rsn cmd w))"
proof (cases "member_id m = member_id (author c)")
  case True
  then show ?thesis by (simp add: punish_self untouched_ctx_send)
next
  case False
  with assms have "member_id m = bot_user_id b" by simp
  with False show ?thesis by (simp add: punish_bot untouched_ctx_send)
qed

text \<open>The owner of the guild trying to ban themselves.\<close>

theorem self_and_bot_target_rejected_witness:
  "punish quiet_env example_bot owner_ctx the_owner ''spam'' Ban fresh_world =
     (Inr (), fresh_world\<lparr>trace := [CtxSend ''You cannot ban yourself.'']\<rparr>)
   \<and> untouched fresh_world (snd (punish quiet_env example_bot owner_ctx the_owner ''spam'' Ban fresh_world))"
  using self_and_bot_target_rejected
    [of the_owner owner_ctx example_bot quiet_env "''spam''" Ban fresh_world]
  by (simp add: owner_ctx_def the_owner_def example_bot_def self_msg_def verb_def ctx_send_def
      perform_def quiet_env_def log_event_def fresh_world_def untouched_def)

text \<open>
  The hierarchy check as the code makes it, for warn, mute, kick and ban alike:
  an actor whose rank is at most the target's and who is not the member that
  \<^verbatim>\<open>guild.owner\<close> returns is rejected, the command being one \<^verbatim>\<open>ctx.send\<close> and
  nothing else; for the member that \<^verbatim>\<open>guild.owner\<close> returns the comparison is
  skipped, and for an actor of strictly higher rank it passes: in both cases
  the command is what follows its checks.
\<close>

theorem hierarchy_check:
  "(top_role (author c) \<le> top_role m \<and> \<not> author_is_owner c \<longrightarrow>
      untouched w (snd (punish E b c m rsn cmd w)) \<and>
      punish E b c m rsn cmd w =
        ctx_send E (if member_id m = member_id (author c) then self_msg cmd
                    else if member_id m = bot_user_id b then bot_msg cmd
                    else hierarchy_msg cmd) w)
   \<and> (member_id m \<noteq> member_id (author c) \<and> member_id m \<noteq> bot_user_id b \<and>
      (author_is_owner c \<or> top_role m < top_role (author c)) \<longrightarrow>
      punish E b c m rsn cmd w = after_checks E b c m rsn cmd w)"
proof (intro conjI impI)
  assume h: "top_role (author c) \<le> top_role m \<and> \<not> author_is_owner c"
  then show eq: "punish E b c m rsn cmd w =
        ctx_send E (if member_id m = member_id (author c) then self_msg cmd
                    else if member_id m = bot_user_id b then bot_msg cmd
                    else hierarchy_msg cmd) w"
    by (simp add: punish_self punish_bot punish_hierarchy)
  show "untouched w (snd (punish E b c m rsn cmd w))"
    unfolding eq by (rule untouched_ctx_send)
next
  assume "member_id m \<noteq> member_id (author c) \<and> member_id m \<noteq> bot_user_id b \<and>
      (author_is_owner c \<or> top_role m < top_role (author c))"
  then have "authority_ok b c m" by (auto simp: authority_ok_def)
  then show "punish E b c m rsn cmd w = after_checks E b c m rsn cmd w"
    by (rule punish_authorised)
qed


lemma kick_by_moderator_run:
  "trace (snd (punish quiet_env example_bot example_ctx target ''spam'' Kick fresh_world)) =
     [MemberSend 42 ''Kicked'', MemberKick 42, DbInsertLog 42 ''kick'',
      CtxSendEmbed ''User Kicked'' (Some 1), LoggerModeration ''kick'' 5 42]
   \<and> trace (snd (punish quiet_env example_bot owner_ctx target ''spam'' Kick fresh_world)) =
     [MemberSend 42 ''Kicked'', MemberKick 42, DbInsertLog 42 ''kick'',
      CtxSendEmbed ''User Kicked'' (Some 1), LoggerModeration ''kick'' 1 42]"
  by code_simp

text \<open>
  Rank 5 against rank 5 is rejected, unless the actor is the owner; rank 6
  against rank 5 passes.
\<close>

theorem hierarchy_check_witness:
  "trace (snd (punish quiet_env example_bot example_ctx target ''spam'' Kick fresh_world)) =
     [MemberSend 42 ''Kicked'', MemberKick 42, DbInsertLog 42 ''kick'',
      CtxSendEmbed ''User Kicked'' (Some 1), LoggerModeration ''kick'' 5 42]
   \<and> trace (snd (punish quiet_env example_bot owner_ctx target ''spam'' Kick fresh_world)) =
     [MemberSend 42 ''Kicked'', MemberKick 42, DbInsertLog 42 ''kick'',
      CtxSendEmbed ''User Kicked'' (Some 1), LoggerModeration ''kick'' 1 42]
   \<and> punish quiet_env example_bot junior_ctx target ''spam'' Kick fresh_world =
     (Inr (), fresh_world\<lparr>trace := [CtxSend ''You cannot kick someone with a higher or equal role.'']\<rparr>)
   \<and> punish quiet_env example_bot owner_ctx target ''spam'' Kick fresh_world =
       after_checks quiet_env example_bot owner_ctx target ''spam'' Kick fresh_world
   \<and> punish quiet_env example_bot example_ctx target ''spam'' Kick fresh_world =
       after_checks quiet_env example_bot example_ctx target ''spam'' Kick fresh_world"
proof -
  have rej: "top_role (author junior_ctx) \<le> top_role target \<and> \<not> author_is_owner junior_ctx"
    by (simp add: junior_ctx_def junior_def target_def author_is_owner_def example_guild_def)
  have own: "member_id target \<noteq> member_id (author owner_ctx) \<and>
             member_id target \<noteq> bot_user_id example_bot \<and>
             (author_is_owner owner_ctx \<or> top_role target < top_role (author owner_ctx))"
    by (simp add: owner_ctx_def the_owner_def target_def author_is_owner_def example_guild_def
        example_bot_def)
  have sup: "member_id target \<noteq> member_id (author example_ctx) \<and>
             member_id target \<noteq> bot_user_id example_bot \<and>
             (author_is_owner example_ctx \<or> top_role target < top_role (author example_ctx))"
    by (simp add: example_ctx_def moderator_def target_def example_bot_def)
  have msg: "ctx_send quiet_env (if member_id target = member_id (author junior_ctx) then self_msg Kick
                    else if member_id target = bot_user_id example_bot then bot_msg Kick
                    else hierarchy_msg Kick) fresh_world =
     (Inr (), fresh_world\<lparr>trace := [CtxSend ''You cannot kick someone with a higher or equal role.'']\<rparr>)"
    by (simp add: junior_ctx_def junior_def target_def example_bot_def hierarchy_msg_def verb_def
        ctx_send_def perform_def quiet_env_def log_event_def fresh_world_def)
  show ?thesis
    using hierarchy_check [of junior_ctx target fresh_world quiet_env example_bot "''spam''" Kick]
      hierarchy_check [of owner_ctx target fresh_world quiet_env example_bot "''spam''" Kick]
      hierarchy_check [of example_ctx target fresh_world quiet_env example_bot "''spam''" Kick]
      rej own sup msg kick_by_moderator_run
    by simp
qed

text \<open>
  C8. The claim: when the actor is the guild owner, the hierarchy comparison
  is bypassed. The commands test \<^verbatim>\<open>ctx.author != ctx.guild.owner\<close>; while the
  owner is not in the member cache \<^verbatim>\<open>guild.owner\<close> is None, the test holds of
  every author, and the owner whose rank is at most the target's is rejected
  like any other member. In the example guild with its owner (rank 5) outside
  the cache, the owner acting on a target of rank 5 is refused by each of the
  four commands:
\<close>

theorem owner_not_cached_rejected:
  "owner_id (guild_of uncached_owner_ctx) = member_id (author uncached_owner_ctx)
   \<and> owner (guild_of uncached_owner_ctx) = None
   \<and> trace (snd (punish quiet_env example_bot uncached_owner_ctx target ''spam'' Warn fresh_world)) =
       [CtxSend ''You cannot warn someone with a higher or equal role.'']
   \<and> trace (snd (punish quiet_env example_bot uncached_owner_ctx target ''spam'' (Mute ''1h'') fresh_world)) =
       [CtxSend ''You cannot mute someone with a higher or equal role.'']
   \<and> trace (snd (punish quiet_env example_bot uncached_owner_ctx target ''spam'' Kick fresh_world)) =
       [CtxSend ''You cannot kick someone with a higher or equal role.'']
   \<and> trace (snd (punish quiet_env example_bot uncached_owner_ctx target ''spam'' Ban fresh_world)) =
       [CtxSend ''You cannot ban someone with a higher or equal role.'']"
  by code_simp

section \<open>The duration limit of mute\<close>

lemma td_bool_total: "total_seconds pd \<noteq> 0 \<Longrightarrow> td_bool pd"
  by (auto simp: td_bool_def total_seconds_def)

lemma mute_authorised:
  "authority_ok b c m \<Longrightarrow> mute E b c m dur rsn w = mute_validate E b c m dur rsn w"
  by (auto simp: authority_ok_def mute_def)

lemma mute_rejected_or_validated:
  "(\<exists>msg. mute E b c m dur rsn w = ctx_send E msg w) \<or>
   mute E b c m dur rsn w = mute_validate E b c m dur rsn w"
  by (auto simp: mute_def)

text \<open>
  C7. A mute whose duration parses to 2419201 seconds or more makes no role
  mutation and writes no audit record, and, the authority checks (which the
  code runs first) having passed, the command is the one message that the
  maximum is 28 days. At exactly 2419200 seconds the duration is accepted: the
  command goes on to find or create the mute role and to add it.
\<close>

theorem mute_duration_limit:
  assumes "parse_duration dur = Inr (Some pd)"
  shows "(2419201 \<le> total_seconds pd \<longrightarrow>
            untouched w (snd (mute E b c m dur rsn w)) \<and>
            (authority_ok b c m \<longrightarrow>
               mute E b c m dur rsn w = ctx_send E ''Maximum mute duration is 28 days.'' w))
       \<and> (total_seconds pd = 2419200 \<longrightarrow> authority_ok b c m \<longrightarrow>
            mute E b c m dur rsn w = mute_execute E b c m rsn pd w)"
proof (intro conjI impI)
  assume long: "2419201 \<le> total_seconds pd"
  then have tb: "td_bool pd" by (intro td_bool_total) simp
  have val: "mute_validate E b c m dur rsn w = ctx_send E ''Maximum mute duration is 28 days.'' w"
    using assms long tb by (simp add: mute_validate_def)
  show "untouched w (snd (mute E b c m dur rsn w))"
    using mute_rejected_or_validated [of E b c m dur rsn w] val
    by (auto simp: untouched_ctx_send)
  show "mute E b c m dur rsn w = ctx_send E ''Maximum mute duration is 28 days.'' w"
    if "authority_ok b c m"
    using that val by (simp add: mute_authorised)
next
  assume eq: "total_seconds pd = 2419200" and auth: "authority_ok b c m"
  from eq have tb: "td_bool pd" by (intro td_bool_total) simp
  show "mute E b c m dur rsn w = mute_execute E b c m rsn pd w"
    using assms eq tb auth by (simp add: mute_authorised mute_validate_def)
qed

lemma parse_28d: "parse_duration ''28d'' = Inr (Some \<lparr>td_days = 28, td_seconds = 0, td_microseconds = 0\<rparr>)"
  by code_simp

lemma parse_28d1s: "parse_duration ''28d1s'' = Inr (Some \<lparr>td_days = 28, td_seconds = 1, td_microseconds = 0\<rparr>)"
  by code_simp

lemma example_authority: "authority_ok example_bot example_ctx target"
  by (simp add: authority_ok_def example_bot_def example_ctx_def target_def moderator_def)

lemma mute_28d_run:
  "take 3 (trace (snd (mute quiet_env example_bot example_ctx target ''28d'' ''spam'' fresh_world))) =
     [MemberAddRoles 42 7, MemberSend 42 ''Muted'', DbInsertLog 42 ''mute'']
   \<and> map duration
        (moderation_logs (snd (mute quiet_env example_bot example_ctx target ''28d'' ''spam'' fresh_world))) =
     [Some 2419200]"
  by code_simp

text \<open>
  "28d1s" is rejected; "28d" is accepted: the role is added and the audit row
  records 2419200 seconds.
\<close>

theorem mute_duration_limit_witness:
  "mute quiet_env example_bot example_ctx target ''28d1s'' ''spam'' fresh_world =
     (Inr (), fresh_world\<lparr>trace := [CtxSend ''Maximum mute duration is 28 days.'']\<rparr>)
   \<and> mute quiet_env example_bot example_ctx target ''28d'' ''spam'' fresh_world =
       mute_execute quiet_env example_bot example_ctx target ''spam''
         \<lparr>td_days = 28, td_seconds = 0, td_microseconds = 0\<rparr> fresh_world
   \<and> take 3 (trace (snd (mute quiet_env example_bot example_ctx target ''28d'' ''spam'' fresh_world))) =
       [MemberAddRoles 42 7, MemberSend 42 ''Muted'', DbInsertLog 42 ''mute'']
   \<and> map duration
        (moderation_logs (snd (mute quiet_env example_bot example_ctx target ''28d'' ''spam'' fresh_world))) =
       [Some 2419200]"
  using mute_28d_run mute_duration_limit [OF parse_28d1s, of fresh_world quiet_env example_bot example_ctx target "''spam''"]
    mute_duration_limit [OF parse_28d, of fresh_world quiet_env example_bot example_ctx target "''spam''"]
    example_authority
  by (simp add: total_seconds_def ctx_send_def perform_def quiet_env_def log_event_def fresh_world_def)

section \<open>Observations that the steps of a command leave alone\<close>

lemma keeps_then_do:
  "keeps obs act \<Longrightarrow> (\<And>a. keeps obs (f a)) \<Longrightarrow> keeps obs (then_do act f)"
  unfolding keeps_def then_do_def
  by (auto split: prod.splits sum.splits) (metis snd_conv)+

lemma keepsD: "keeps obs act \<Longrightarrow> act w = (r, w') \<Longrightarrow> obs w' = obs w"
  unfolding keeps_def by (metis snd_conv)

lemma keeps_return: "keeps obs (\<lambda>w. (r, w))"
  by (simp add: keeps_def)

lemma keeps_perform:
  "(\<And>w. obs (log_event q w) = obs w) \<Longrightarrow> keeps obs (perform E q)"
  by (simp add: keeps_def perform_def split: option.splits)

lemma keeps_logger:
  "(\<And>w. obs (log_event q w) = obs w) \<Longrightarrow> keeps obs (logger q)"
  by (simp add: keeps_def logger_def)

lemma keeps_ctx_send:
  "(\<And>w. obs (log_event (CtxSend msg) w) = obs w) \<Longrightarrow> keeps obs (ctx_send E msg)"
  by (simp add: ctx_send_def keeps_perform)

lemma keeps_try_dm:
  "(\<And>w. obs (log_event (MemberSend mid title) w) = obs w) \<Longrightarrow> keeps obs (try_dm E mid title)"
  by (simp add: keeps_def try_dm_def perform_def split: option.splits)

lemma keeps_set_permissions_all:
  assumes "\<And>ch w. obs (log_event (ChannelSetPermissions ch rid) w) = obs w"
  shows "keeps obs (set_permissions_all E chs rid)"
  unfolding keeps_def
proof (induction chs)
  case Nil
  show ?case by simp
next
  case (Cons ch chs)
  show ?case
  proof
    fix w
    show "obs (snd (set_permissions_all E (ch # chs) rid w)) = obs w"
      using Cons assms [of ch w]
      by (auto simp: perform_def split: option.splits)
  qed
qed

lemma keeps_create_mute_role:
  assumes "\<And>name w. obs (log_event (GuildCreateRole name) w) = obs w"
    and "\<And>ch rid w. obs (log_event (ChannelSetPermissions ch rid) w) = obs w"
    and "\<And>msg w. obs (log_event (CtxSend msg) w) = obs w"
  shows "keeps obs (create_mute_role E c)"
proof -
  have "keeps obs
      (then_do (perform E (GuildCreateRole ''Muted'')) (\<lambda>_.
       then_do (set_permissions_all E (text_channels (guild_of c)) rid) (\<lambda>_.
       then_do (set_permissions_all E (voice_channels (guild_of c)) rid) (\<lambda>_.
       then_do (ctx_send E ''Created Muted role'') (\<lambda>_.
       (\<lambda>w'. (Inr r, w')))))))" for rid and r :: role
    by (intro keeps_then_do keeps_perform keeps_set_permissions_all keeps_ctx_send keeps_return
        assms)
  then show ?thesis
    by (simp add: keeps_def create_mute_role_def Let_def)
qed

lemma log_event_fields [simp]:
  "moderation_logs (log_event q w) = moderation_logs w"
  "users (log_event q w) = users w"
  "pool (log_event q w) = pool w"
  "next_id (log_event q w) = next_id w"
  "trace (log_event q w) = trace w @ [q]"
  by (simp_all add: log_event_def)

lemma sends_ok_ctx_send:
  "sends_ok E \<Longrightarrow> ctx_send E msg w = (Inr (), log_event (CtxSend msg) w)"
  by (simp add: sends_ok_def ctx_send_def perform_def)

section \<open>schedule_unmute\<close>

lemma schedule_unmute_raises:
  "schedule_unmute E b uid rid secs w = (Inl NameError, w)"
  by (simp add: schedule_unmute_def load_global_def module_globals_def)


section \<open>A platform side effect that fails\<close>

lemma perform_refused: "fault E q w = Some e \<Longrightarrow> perform E q w = (Inl e, w)"
  by (simp add: perform_def)

lemma reported_failure_tables:
  "moderation_logs (reported_failure cmd e w0) = moderation_logs w0"
  "users (reported_failure cmd e w0) = users w0"
  by (simp_all add: reported_failure_def)

lemma try_dm_tables:
  assumes "try_dm E mid title w = (r, w0)"
  shows "moderation_logs w0 = moderation_logs w" "users w0 = users w"
  by (rule keepsD [OF keeps_try_dm assms], simp)+

lemma kick_refused:
  assumes "sends_ok E" "try_dm E (member_id m) ''Kicked'' w = (Inr (), w0)"
    and "fault E (MemberKick (member_id m)) w0 = Some e"
  shows "kick_execute E b c m rsn w = (Inr (), reported_failure Kick e w0)"
  using assms
  by (simp add: kick_execute_def kick_try_def then_do_def perform_refused kick_except_def
      sends_ok_ctx_send reported_failure_def forbidden_msg_def generic_msg_def error_log_def
      verb_def)

lemma ban_refused:
  assumes "sends_ok E" "try_dm E (member_id m) ''Banned'' w = (Inr (), w0)"
    and "fault E (MemberBan (member_id m)) w0 = Some e"
  shows "ban_execute E b c m rsn w = (Inr (), reported_failure Ban e w0)"
  using assms
  by (simp add: ban_execute_def ban_try_def then_do_def perform_refused ban_except_def
      sends_ok_ctx_send reported_failure_def forbidden_msg_def generic_msg_def error_log_def
      verb_def)

lemma mute_try_refused:
  assumes "sends_ok E" "fault E (MemberAddRoles (member_id m) (role_id r)) w0 = Some e"
  shows "mute_except E (mute_try E b c m rsn r pd w0) = (Inr (), reported_failure (Mute dur) e w0)"
  using assms
  by (simp add: mute_try_def then_do_def perform_refused mute_except_def
      sends_ok_ctx_send reported_failure_def forbidden_msg_def generic_msg_def error_log_def
      verb_def)

lemma mute_refused:
  assumes "sends_ok E"
    and "(find_mute_role (guild_of c) = Some r \<and> w0 = w) \<or>
         (find_mute_role (guild_of c) = None \<and> create_mute_role E c w = (Inr r, w0))"
    and "fault E (MemberAddRoles (member_id m) (role_id r)) w0 = Some e"
  shows "mute_execute E b c m rsn pd w = (Inr (), reported_failure (Mute dur) e w0)"
  using assms(2) mute_try_refused [OF assms(1) assms(3), of b c rsn pd dur]
  by (auto simp: mute_execute_def)

lemma mute_role_tables:
  assumes "(find_mute_role (guild_of c) = Some r \<and> w0 = w) \<or>
           (find_mute_role (guild_of c) = None \<and> create_mute_role E c w = (Inr r, w0))"
  shows "moderation_logs w0 = moderation_logs w \<and> users w0 = users w"
proof -
  from assms consider "w0 = w" | "create_mute_role E c w = (Inr r, w0)" by blast
  then show ?thesis
  proof cases
    case 1
    then show ?thesis by simp
  next
    case 2
    have "moderation_logs w0 = moderation_logs w"
      by (rule keepsD [OF keeps_create_mute_role 2]) simp_all
    moreover have "users w0 = users w"
      by (rule keepsD [OF keeps_create_mute_role 2]) simp_all
    ultimately show ?thesis by simp
  qed
qed

text \<open>
  C10. For mute, kick and ban, the checks before the execution having passed
  and the channel accepting the command's messages: let \<open>w0\<close> be the state in
  which the command requests its side effect (for mute once the mute role is
  found or created, for kick and ban once the direct message to the target is
  sent or found forbidden), and let the platform refuse the request there with
  the exception \<open>e\<close>. Then the command returns, and all it has added to \<open>w0\<close> is
  the report of the error to the invoker: no audit record is written
  (\<open>log_moderation_action\<close> is not called), the \<^verbatim>\<open>users\<close> table is as it was,
  and no further step of the command runs.
\<close>

theorem side_effect_failure:
  assumes "sends_ok E" "authority_ok b c m"
  shows "(parse_duration dur = Inr (Some pd) \<and> td_bool pd \<and> total_seconds pd \<le> 2419200 \<and>
          ((find_mute_role (guild_of c) = Some r \<and> w0 = w) \<or>
           (find_mute_role (guild_of c) = None \<and> create_mute_role E c w = (Inr r, w0))) \<and>
          fault E (MemberAddRoles (member_id m) (role_id r)) w0 = Some e \<longrightarrow>
            mute E b c m dur rsn w = (Inr (), reported_failure (Mute dur) e w0) \<and>
            moderation_logs (snd (mute E b c m dur rsn w)) = moderation_logs w \<and>
            users (snd (mute E b c m dur rsn w)) = users w)
       \<and> (try_dm E (member_id m) ''Kicked'' w = (Inr (), w0) \<and>
          fault E (MemberKick (member_id m)) w0 = Some e \<longrightarrow>
            kick E b c m rsn w = (Inr (), reported_failure Kick e w0) \<and>
            moderation_logs (snd (kick E b c m rsn w)) = moderation_logs w \<and>
            users (snd (kick E b c m rsn w)) = users w)
       \<and> (try_dm E (member_id m) ''Banned'' w = (Inr (), w0) \<and>
          fault E (MemberBan (member_id m)) w0 = Some e \<longrightarrow>
            ban E b c m rsn w = (Inr (), reported_failure Ban e w0) \<and>
            moderation_logs (snd (ban E b c m rsn w)) = moderation_logs w \<and>
            users (snd (ban E b c m rsn w)) = users w)"
proof (intro conjI impI)
  assume h: "parse_duration dur = Inr (Some pd) \<and> td_bool pd \<and> total_seconds pd \<le> 2419200 \<and>
          ((find_mute_role (guild_of c) = Some r \<and> w0 = w) \<or>
           (find_mute_role (guild_of c) = None \<and> create_mute_role E c w = (Inr r, w0))) \<and>
          fault E (MemberAddRoles (member_id m) (role_id r)) w0 = Some e"
  then have "mute E b c m dur rsn w = mute_execute E b c m rsn pd w"
    using assms(2) by (simp add: mute_authorised mute_validate_def)
  then show eq: "mute E b c m dur rsn w = (Inr (), reported_failure (Mute dur) e w0)"
    using h mute_refused [OF assms(1), of c r w0 w m e b rsn pd dur] by simp
  have t: "moderation_logs w0 = moderation_logs w \<and> users w0 = users w"
    using h mute_role_tables [of c r w0 w E] by simp
  show "moderation_logs (snd (mute E b c m dur rsn w)) = moderation_logs w"
    using t by (simp add: eq reported_failure_tables)
  show "users (snd (mute E b c m dur rsn w)) = users w"
    using t by (simp add: eq reported_failure_tables)
next
  assume h: "try_dm E (member_id m) ''Kicked'' w = (Inr (), w0) \<and>
          fault E (MemberKick (member_id m)) w0 = Some e"
  have "kick E b c m rsn w = kick_execute E b c m rsn w"
    using punish_authorised [OF assms(2), of E rsn Kick w] by (simp add: punish_def after_checks_def)
  then show eq: "kick E b c m rsn w = (Inr (), reported_failure Kick e w0)"
    using h kick_refused [OF assms(1), of m w w0 e b c rsn] by simp
  show "moderation_logs (snd (kick E b c m rsn w)) = moderation_logs w"
    using h try_dm_tables(1) [of E "member_id m" "''Kicked''" w "Inr ()" w0]
    by (simp add: eq reported_failure_tables)
  show "users (snd (kick E b c m rsn w)) = users w"
    using h try_dm_tables(2) [of E "member_id m" "''Kicked''" w "Inr ()" w0]
    by (simp add: eq reported_failure_tables)
next
  assume h: "try_dm E (member_id m) ''Banned'' w = (Inr (), w0) \<and>
          fault E (MemberBan (member_id m)) w0 = Some e"
  have "ban E b c m rsn w = ban_execute E b c m rsn w"
    using punish_authorised [OF assms(2), of E rsn Ban w] by (simp add: punish_def after_checks_def)
  then show eq: "ban E b c m rsn w = (Inr (), reported_failure Ban e w0)"
    using h ban_refused [OF assms(1), of m w w0 e b c rsn] by simp
  show "moderation_logs (snd (ban E b c m rsn w)) = moderation_logs w"
    using h try_dm_tables(1) [of E "member_id m" "''Banned''" w "Inr ()" w0]
    by (simp add: eq reported_failure_tables)
  show "users (snd (ban E b c m rsn w)) = users w"
    using h try_dm_tables(2) [of E "member_id m" "''Banned''" w "Inr ()" w0]
    by (simp add: eq reported_failure_tables)
qed

lemma refusing_sends_ok: "sends_ok refusing_env"
  by (simp add: sends_ok_def refusing_env_def)

lemma parse_30m: "parse_duration ''30m'' = Inr (Some \<lparr>td_days = 0, td_seconds = 1800, td_microseconds = 0\<rparr>)"
  by code_simp

lemma example_role: "find_mute_role (guild_of example_ctx) = Some \<lparr>role_id = 7, role_name = ''Muted''\<rparr>"
  by code_simp

text \<open>
  A platform that refuses role-adds and kicks with Forbidden and bans with
  another exception: the mute is the one permission message, the kick the
  direct message and the permission message, the ban the direct message, the
  logger's line and the generic message.
\<close>

theorem side_effect_failure_witness:
  "mute refusing_env example_bot example_ctx target ''30m'' ''spam'' fresh_world =
     (Inr (), fresh_world\<lparr>trace := [CtxSend ''I don't have permission to mute this user.'']\<rparr>)
   \<and> kick refusing_env example_bot example_ctx target ''spam'' fresh_world =
     (Inr (), fresh_world\<lparr>trace := [MemberSend 42 ''Kicked'',
                                     CtxSend ''I don't have permission to kick this user.'']\<rparr>)
   \<and> ban refusing_env example_bot example_ctx target ''spam'' fresh_world =
     (Inr (), fresh_world\<lparr>trace := [MemberSend 42 ''Banned'', LoggerError ''Error banning user'',
                                     CtxSend ''An error occurred while trying to ban the user.'']\<rparr>)"
proof -
  have t: "member_id target = 42" by (simp add: target_def)
  have dm: "try_dm refusing_env 42 title fresh_world =
              (Inr (), log_event (MemberSend 42 title) fresh_world)" for title
    by (simp add: try_dm_def perform_def refusing_env_def)
  have f: "fault refusing_env (MemberAddRoles 42 7) fresh_world = Some Forbidden"
    "fault refusing_env (MemberKick 42) (log_event (MemberSend 42 ''Kicked'') fresh_world) = Some Forbidden"
    "fault refusing_env (MemberBan 42) (log_event (MemberSend 42 ''Banned'') fresh_world) = Some HTTPException"
    by (simp_all add: refusing_env_def)
  have pd: "td_bool \<lparr>td_days = 0, td_seconds = 1800, td_microseconds = 0\<rparr>"
    "total_seconds \<lparr>td_days = 0, td_seconds = 1800, td_microseconds = 0\<rparr> \<le> 2419200"
    by (simp_all add: td_bool_def total_seconds_def)
  have m: "mute refusing_env example_bot example_ctx target ''30m'' ''spam'' fresh_world =
             (Inr (), reported_failure (Mute ''30m'') Forbidden fresh_world)"
    using side_effect_failure [OF refusing_sends_ok example_authority,
        where dur = "''30m''" and pd = "\<lparr>td_days = 0, td_seconds = 1800, td_microseconds = 0\<rparr>"
          and r = "\<lparr>role_id = 7, role_name = ''Muted''\<rparr>" and ?w0.0 = fresh_world
          and w = fresh_world and e = Forbidden and rsn = "''spam''"]
      parse_30m example_role pd f(1)
    by (simp add: t)
  have k: "kick refusing_env example_bot example_ctx target ''spam'' fresh_world =
             (Inr (), reported_failure Kick Forbidden (log_event (MemberSend 42 ''Kicked'') fresh_world))"
    using side_effect_failure [OF refusing_sends_ok example_authority,
        where ?w0.0 = "log_event (MemberSend 42 ''Kicked'') fresh_world"
          and w = fresh_world and e = Forbidden and rsn = "''spam''"]
      dm f(2)
    by (simp add: t)
  have b: "ban refusing_env example_bot example_ctx target ''spam'' fresh_world =
             (Inr (), reported_failure Ban HTTPException (log_event (MemberSend 42 ''Banned'') fresh_world))"
    using side_effect_failure [OF refusing_sends_ok example_authority,
        where ?w0.0 = "log_event (MemberSend 42 ''Banned'') fresh_world"
          and w = fresh_world and e = HTTPException and rsn = "''spam''"]
      dm f(3)
    by (simp add: t)
  show ?thesis
    unfolding m k b
    by (simp add: reported_failure_def forbidden_msg_def generic_msg_def error_log_def verb_def
        log_event_def fresh_world_def)
qed


section \<open>The unmute that mute schedules\<close>

lemma keeps_filter_log_moderation_action:
  "\<not> P (DbInsertLog uid atype) \<Longrightarrow> \<not> P (LoggerError ''Database fetchrow error'') \<Longrightarrow>
   keeps (\<lambda>w. filter P (trace w)) (log_moderation_action E gid uid mid atype rsn dur)"
  by (simp add: keeps_def log_moderation_action_def fetchrow_def split: option.splits)

lemma keeps_schedule_unmute: "keeps obs (schedule_unmute E b uid rid secs)"
  by (simp add: keeps_def schedule_unmute_raises)

lemma keeps_removals_mute_try:
  "keeps (\<lambda>w. filter is_remove_roles (trace w)) (mute_try E b c m rsn r pd)"
  unfolding mute_try_def
  by (intro keeps_then_do keeps_perform keeps_try_dm keeps_filter_log_moderation_action
      keeps_logger keeps_schedule_unmute) simp_all

lemma mute_except_removals:
  "filter is_remove_roles (trace (snd (mute_except E rw))) = filter is_remove_roles (trace (snd rw))"
  by (cases rw)
     (auto simp: mute_except_def ctx_send_def perform_def split: sum.splits option.splits)

lemma ctx_send_removals:
  "filter is_remove_roles (trace (snd (ctx_send E msg w))) = filter is_remove_roles (trace w)"
  by (auto simp: ctx_send_def perform_def split: option.splits)

lemma mute_execute_removals:
  "filter is_remove_roles (trace (snd (mute_execute E b c m rsn pd w))) =
   filter is_remove_roles (trace w)"
proof (cases "find_mute_role (guild_of c)")
  case (Some r)
  obtain res w' where t: "mute_try E b c m rsn r pd w = (res, w')"
    by (cases "mute_try E b c m rsn r pd w")
  have "filter is_remove_roles (trace w') = filter is_remove_roles (trace w)"
    by (rule keepsD [OF keeps_removals_mute_try t])
  then show ?thesis
    using Some t mute_except_removals [of E "(res, w')"] by (simp add: mute_execute_def)
next
  case None
  obtain cres w1 where cr: "create_mute_role E c w = (cres, w1)"
    by (cases "create_mute_role E c w")
  have k: "filter is_remove_roles (trace w1) = filter is_remove_roles (trace w)"
    by (rule keepsD [OF keeps_create_mute_role cr]) simp_all
  show ?thesis
  proof (cases cres)
    case (Inl e)
    then show ?thesis
      using None cr k by (simp add: mute_execute_def ctx_send_removals)
  next
    case (Inr r)
    obtain res w' where t: "mute_try E b c m rsn r pd w1 = (res, w')"
      by (cases "mute_try E b c m rsn r pd w1")
    have "filter is_remove_roles (trace w') = filter is_remove_roles (trace w1)"
      by (rule keepsD [OF keeps_removals_mute_try t])
    then show ?thesis
      using None cr Inr t k mute_except_removals [of E "(res, w')"]
      by (simp add: mute_execute_def)
  qed
qed

lemma mute_removals:
  "filter is_remove_roles (trace (snd (mute E b c m dur rsn w))) =
   filter is_remove_roles (trace w)"
  by (auto simp: mute_def mute_validate_def ctx_send_removals mute_execute_removals
      split: sum.splits option.splits)

lemma mute_try_audited:
  assumes "sends_ok E" "mute_try E b c m rsn r pd w = (res, w')"
    and "moderation_logs w' \<noteq> moderation_logs w"
  shows "res = Inl NameError"
  using assms
  by (auto simp: mute_try_def then_do_def perform_def try_dm_def log_moderation_action_def
      fetchrow_def logger_def schedule_unmute_raises sends_ok_def
      split: option.splits if_splits)

lemma mute_except_logs:
  "moderation_logs (snd (mute_except E rw)) = moderation_logs (snd rw)"
  by (cases rw)
     (auto simp: mute_except_def ctx_send_def perform_def split: sum.splits option.splits)

lemma ctx_send_logs:
  "moderation_logs (snd (ctx_send E msg w)) = moderation_logs w"
  by (auto simp: ctx_send_def perform_def split: option.splits)

lemma mute_except_name_error:
  "sends_ok E \<Longrightarrow>
   mute_except E (Inl NameError, w') =
     (Inr (), log_event (CtxSend ''An error occurred while trying to mute the user.'')
                (log_event (LoggerError ''Error muting user'') w'))"
  by (simp add: mute_except_def sends_ok_ctx_send)

lemma mute_guarded_audited:
  assumes ok: "sends_ok E"
    and ch: "moderation_logs (snd (mute_except E (mute_try E b c m rsn r pd w1))) \<noteq> moderation_logs w1"
  shows "fst (mute_except E (mute_try E b c m rsn r pd w1)) = Inr () \<and>
         trace (snd (mute_except E (mute_try E b c m rsn r pd w1))) \<noteq> [] \<and>
         last (trace (snd (mute_except E (mute_try E b c m rsn r pd w1)))) =
           CtxSend ''An error occurred while trying to mute the user.''"
proof -
  obtain res w' where t: "mute_try E b c m rsn r pd w1 = (res, w')"
    by (cases "mute_try E b c m rsn r pd w1")
  have "moderation_logs w' \<noteq> moderation_logs w1"
    using ch t mute_except_logs [of E "(res, w')"] by simp
  then have "res = Inl NameError"
    using mute_try_audited [OF ok t] by simp
  then show ?thesis
    using t ok by (simp add: mute_except_name_error)
qed

lemma mute_execute_audited:
  assumes ok: "sends_ok E"
    and ch: "moderation_logs (snd (mute_execute E b c m rsn pd w)) \<noteq> moderation_logs w"
  shows "fst (mute_execute E b c m rsn pd w) = Inr () \<and>
         trace (snd (mute_execute E b c m rsn pd w)) \<noteq> [] \<and>
         last (trace (snd (mute_execute E b c m rsn pd w))) =
           CtxSend ''An error occurred while trying to mute the user.''"
proof (cases "find_mute_role (guild_of c)")
  case (Some r)
  then show ?thesis
    using mute_guarded_audited [OF ok, of b c m rsn r pd w] ch by (simp add: mute_execute_def)
next
  case None
  obtain cres w1 where cr: "create_mute_role E c w = (cres, w1)"
    by (cases "create_mute_role E c w")
  have k: "moderation_logs w1 = moderation_logs w"
    by (rule keepsD [OF keeps_create_mute_role cr]) simp_all
  show ?thesis
  proof (cases cres)
    case (Inl e)
    then show ?thesis
      using None cr k ch by (simp add: mute_execute_def ctx_send_logs split: if_splits)
  next
    case (Inr r)
    then show ?thesis
      using None cr k ch mute_guarded_audited [OF ok, of b c m rsn r pd w1]
      by (simp add: mute_execute_def)
  qed
qed

text \<open>
  C2. Every call of \<open>schedule_unmute\<close> raises NameError where it evaluates
  \<^verbatim>\<open>asyncio.sleep\<close>, the module never importing \<^verbatim>\<open>asyncio\<close>, and leaves the state
  as it was: nothing was awaited and no removal was tried. So no run of mute
  ever removes a role; and a mute that wrote its audit record (which it does
  only after the role-add succeeded) ends, where the channel accepts its
  messages, by sending the generic error message.
\<close>

theorem schedule_unmute_name_error:
  "schedule_unmute E b uid rid secs w = (Inl NameError, w)
   \<and> filter is_remove_roles (trace (snd (mute E b c m dur rsn w))) =
       filter is_remove_roles (trace w)
   \<and> (sends_ok E \<and> moderation_logs (snd (mute E b c m dur rsn w)) \<noteq> moderation_logs w \<longrightarrow>
        fst (mute E b c m dur rsn w) = Inr () \<and>
        trace (snd (mute E b c m dur rsn w)) \<noteq> [] \<and>
        last (trace (snd (mute E b c m dur rsn w))) =
          CtxSend ''An error occurred while trying to mute the user.'')"
proof (intro conjI impI)
  show "schedule_unmute E b uid rid secs w = (Inl NameError, w)"
    by (rule schedule_unmute_raises)
  show "filter is_remove_roles (trace (snd (mute E b c m dur rsn w))) =
       filter is_remove_roles (trace w)"
    by (rule mute_removals)
next
  assume h: "sends_ok E \<and> moderation_logs (snd (mute E b c m dur rsn w)) \<noteq> moderation_logs w"
  then obtain pd where ex: "mute E b c m dur rsn w = mute_execute E b c m rsn pd w"
    by (auto simp: mute_def mute_validate_def ctx_send_logs split: sum.splits option.splits if_splits)
  from h ex mute_execute_audited [of E b c m rsn pd w]
  have r: "fst (mute E b c m dur rsn w) = Inr () \<and>
        trace (snd (mute E b c m dur rsn w)) \<noteq> [] \<and>
        last (trace (snd (mute E b c m dur rsn w))) =
          CtxSend ''An error occurred while trying to mute the user.''"
    by simp
  from r show "fst (mute E b c m dur rsn w) = Inr ()" by simp
  from r show "trace (snd (mute E b c m dur rsn w)) \<noteq> []" by simp
  from r show "last (trace (snd (mute E b c m dur rsn w))) =
          CtxSend ''An error occurred while trying to mute the user.''" by simp
qed


lemma quiet_sends_ok: "sends_ok quiet_env"
  by (simp add: sends_ok_def quiet_env_def)

lemma mute_example_logs:
  "moderation_logs (snd (mute quiet_env example_bot example_ctx target ''30m'' ''spam'' fresh_world)) =
     [\<lparr>log_id = 1, log_guild_id = 100, log_user_id = 42, log_moderator_id = 5,
       action_type = ''mute'', reason = Some ''spam'', duration = Some 1800\<rparr>]"
  by code_simp

text \<open>A mute of 30 minutes where every request succeeds.\<close>

theorem schedule_unmute_name_error_witness:
  "schedule_unmute quiet_env example_bot 42 7 1800 fresh_world = (Inl NameError, fresh_world)
   \<and> fst (mute quiet_env example_bot example_ctx target ''30m'' ''spam'' fresh_world) = Inr ()
   \<and> last (trace (snd (mute quiet_env example_bot example_ctx target ''30m'' ''spam'' fresh_world))) =
        CtxSend ''An error occurred while trying to mute the user.''"
  using schedule_unmute_name_error
    [of quiet_env example_bot 42 7 1800 fresh_world example_ctx target "''30m''" "''spam''"]
    quiet_sends_ok mute_example_logs
  by (simp add: fresh_world_def)

section \<open>The call of schedule_unmute inside mute\<close>

lemma no_faults_perform: "no_faults E \<Longrightarrow> perform E q w = (Inr (), log_event q w)"
  by (simp add: no_faults_def perform_def)

lemma quiet_no_faults: "no_faults quiet_env"
  by (simp add: no_faults_def quiet_env_def)

text \<open>
  C1. The claim: for every mute issued with success, the call of
  \<open>schedule_unmute\<close> returns, and the role is removed once the delay has
  elapsed. The docstring of \<open>schedule_unmute\<close> says as much, and its body is
  written to wait and then to remove the role. In the example guild, where
  the muted member and the mute role exist and no request fails, the call made
  by a mute of 30 minutes does not return: it raises before it waits, and does
  nothing; the whole mute is the role-add, the direct message, the audit
  write, the confirmation, the logger's line and the report of an error: no
  wait and no removal of the role.
\<close>

theorem schedule_unmute_never_unmutes:
  "fst (schedule_unmute quiet_env example_bot 42 7 1800 fresh_world) = Inl NameError
   \<and> trace (snd (schedule_unmute quiet_env example_bot 42 7 1800 fresh_world)) = []
   \<and> get_member example_guild 42 = Some target
   \<and> get_role example_guild 7 = Some \<lparr>role_id = 7, role_name = ''Muted''\<rparr>
   \<and> trace (snd (mute quiet_env example_bot example_ctx target ''30m'' ''spam'' fresh_world)) =
       [MemberAddRoles 42 7, MemberSend 42 ''Muted'', DbInsertLog 42 ''mute'',
        CtxSendEmbed ''User Muted'' (Some 1), LoggerModeration ''mute'' 5 42,
        LoggerError ''Error muting user'',
        CtxSend ''An error occurred while trying to mute the user.'']"
  by code_simp

section \<open>The warnings counter\<close>

lemma keeps_users_log_moderation_action:
  "keeps users (log_moderation_action E gid uid mid atype rsn dur)"
  by (simp add: keeps_def log_moderation_action_def fetchrow_def split: option.splits)

lemma get_user_result:
  "\<exists>r w'. get_user E uid w = (r, w') \<and> users w' = users w \<and>
          (r = Inr (users w uid) \<or> (\<exists>e. r = Inl e))"
  by (simp add: get_user_def fetchrow_def split: option.splits)

lemma keeps_users_confirm:
  "keeps users (then_do (perform E (CtxSendEmbed title i)) (\<lambda>_. logger q))"
  by (intro keeps_then_do keeps_perform keeps_logger) simp_all

lemma warn_try_keeps_absent:
  assumes "users w (member_id m) = None"
  shows "users (snd (warn_try E c m rsn w)) = users w"
proof -
  obtain r0 w0 where a: "try_dm E (member_id m) ''Warning'' w = (r0, w0)"
    by (cases "try_dm E (member_id m) ''Warning'' w")
  have u0: "users w0 = users w"
    by (rule keepsD [OF keeps_try_dm a]) simp
  show ?thesis
  proof (cases r0)
    case (Inl e)
    then show ?thesis using a u0 by (simp add: warn_try_def then_do_def)
  next
    case (Inr u)
    obtain r1 w1 where b: "log_moderation_action E (guild_id (guild_of c)) (member_id m)
                (member_id (author c)) ''warn'' (Some rsn) None w0 = (r1, w1)"
      by (cases "log_moderation_action E (guild_id (guild_of c)) (member_id m)
                (member_id (author c)) ''warn'' (Some rsn) None w0")
    have u1: "users w1 = users w"
      using keepsD [OF keeps_users_log_moderation_action b] u0 by simp
    show ?thesis
    proof (cases r1)
      case (Inl e)
      then show ?thesis using a Inr b u1 by (simp add: warn_try_def then_do_def)
    next
      case (Inr i)
      obtain r2 w2 where g: "get_user E (member_id m) w1 = (r2, w2)"
        and u2: "users w2 = users w1"
        and r2: "r2 = Inr (users w1 (member_id m)) \<or> (\<exists>e. r2 = Inl e)"
        using get_user_result by blast
      from r2 show ?thesis
      proof
        assume "\<exists>e. r2 = Inl e"
        then show ?thesis
          using a \<open>r0 = Inr u\<close> b Inr g u1 u2 by (auto simp: warn_try_def then_do_def)
      next
        assume "r2 = Inr (users w1 (member_id m))"
        then have r2n: "r2 = Inr None" using u1 assms by simp
        obtain r3 w3 where k: "then_do (perform E (CtxSendEmbed ''User Warned'' i))
            (\<lambda>_. logger (LoggerModeration ''warn'' (member_id (author c)) (member_id m))) w2 = (r3, w3)"
          by (cases "then_do (perform E (CtxSendEmbed ''User Warned'' i))
            (\<lambda>_. logger (LoggerModeration ''warn'' (member_id (author c)) (member_id m))) w2")
        have u3: "users w3 = users w2"
          by (rule keepsD [OF keeps_users_confirm k])
        have "warn_try E c m rsn w = (r3, w3)"
          using a \<open>r0 = Inr u\<close> b Inr g r2n k
          by (simp add: warn_try_def then_do_def [of "try_dm E (member_id m) ''Warning''"]
              then_do_def [of "log_moderation_action E (guild_id (guild_of c)) (member_id m)
                (member_id (author c)) ''warn'' (Some rsn) None"]
              then_do_def [of "get_user E (member_id m)"]
              then_do_def [of "\<lambda>w. (Inr (), w)"])
        then show ?thesis using u3 u2 u1 by simp
      qed
    qed
  qed
qed

lemma warn_except_users: "users (snd (warn_except E rw)) = users (snd rw)"
  by (cases rw)
     (auto simp: warn_except_def ctx_send_def perform_def split: sum.splits option.splits)

lemma ctx_send_users: "users (snd (ctx_send E msg w)) = users w"
  by (auto simp: ctx_send_def perform_def split: option.splits)

lemma warn_keeps_absent:
  assumes "users w (member_id m) = None"
  shows "users (snd (warn E b c m rsn w)) = users w"
  using warn_try_keeps_absent [OF assms, of E c rsn]
  by (simp add: warn_def warn_execute_def warn_except_users ctx_send_users)


lemma warn_counts:
  assumes "authority_ok b c m" "no_faults E" "pool w"
    and "users w (member_id m) = Some (Some n)" "0 \<le> n" "n + 1 \<le> 2147483647"
  shows "fst (warn E b c m rsn w) = Inr () \<and> pool (snd (warn E b c m rsn w)) \<and>
         users (snd (warn E b c m rsn w)) (member_id m) = Some (Some (n + 1))"
proof -
  have "warn E b c m rsn w = warn_execute E b c m rsn w"
    using punish_authorised [OF assms(1), of E rsn Warn w] by (simp add: punish_def after_checks_def)
  then show ?thesis
    using assms(2-)
    by (simp add: warn_execute_def warn_except_def warn_try_def then_do_def try_dm_def
        no_faults_perform log_moderation_action_def fetchrow_def get_user_def logger_def
        update_warnings_def execute_def no_faults_def)
qed

text \<open>
  C4, amended: warning a user whose record does not exist creates no record
  and stores no counter, the update being made only when \<open>get_user\<close> finds
  the row (\<^verbatim>\<open>if user_data:\<close>): the \<^verbatim>\<open>users\<close> table is left as it was. For a user
  whose record exists with \<open>n\<close> warnings, three warns in sequence that pass
  their checks and whose requests all complete leave the stored counter at
  \<open>n + 1\<close>, then \<open>n + 2\<close>, then \<open>n + 3\<close>.
\<close>

theorem warn_counter:
  "(users w (member_id m) = None \<longrightarrow> users (snd (warn E b c m rsn w)) = users w)
   \<and> (authority_ok b c m \<and> no_faults E \<and> pool w \<and>
      users w (member_id m) = Some (Some n) \<and> 0 \<le> n \<and> n + 3 \<le> 2147483647 \<longrightarrow>
        users (snd (warn E b c m rsn w)) (member_id m) = Some (Some (n + 1)) \<and>
        users (snd (warn E b c m rsn (snd (warn E b c m rsn w)))) (member_id m) =
          Some (Some (n + 2)) \<and>
        users (snd (warn E b c m rsn (snd (warn E b c m rsn (snd (warn E b c m rsn w))))))
          (member_id m) = Some (Some (n + 3)))"
proof (intro conjI impI)
  assume "users w (member_id m) = None"
  then show "users (snd (warn E b c m rsn w)) = users w" by (rule warn_keeps_absent)
next
  assume h: "authority_ok b c m \<and> no_faults E \<and> pool w \<and>
      users w (member_id m) = Some (Some n) \<and> 0 \<le> n \<and> n + 3 \<le> 2147483647"
  let ?w1 = "snd (warn E b c m rsn w)"
  let ?w2 = "snd (warn E b c m rsn ?w1)"
  let ?w3 = "snd (warn E b c m rsn ?w2)"
  have s1: "pool ?w1 \<and> users ?w1 (member_id m) = Some (Some (n + 1))"
    using warn_counts [of b c m E w n rsn] h by simp
  have s2: "pool ?w2 \<and> users ?w2 (member_id m) = Some (Some (n + 1 + 1))"
    using warn_counts [of b c m E ?w1 "n + 1" rsn] h s1 by simp
  have s3: "users ?w3 (member_id m) = Some (Some (n + 1 + 1 + 1))"
    using warn_counts [of b c m E ?w2 "n + 1 + 1" rsn] h s2 by simp
  show "users ?w1 (member_id m) = Some (Some (n + 1))" using s1 by simp
  show "users ?w2 (member_id m) = Some (Some (n + 2))" using s2 by simp
  show "users ?w3 (member_id m) = Some (Some (n + 3))" using s3 by simp
qed


text \<open>A user without a record, and a user whose record counts 0 warnings.\<close>

theorem warn_counter_witness:
  "users (snd (warn quiet_env example_bot example_ctx target ''spam'' fresh_world)) = users fresh_world
   \<and> users (snd (warn quiet_env example_bot example_ctx target ''spam'' known_world)) 42 = Some (Some 1)
   \<and> users (snd (warn quiet_env example_bot example_ctx target ''spam''
        (snd (warn quiet_env example_bot example_ctx target ''spam'' known_world)))) 42 = Some (Some 2)
   \<and> users (snd (warn quiet_env example_bot example_ctx target ''spam''
        (snd (warn quiet_env example_bot example_ctx target ''spam''
          (snd (warn quiet_env example_bot example_ctx target ''spam'' known_world)))))) 42
        = Some (Some 3)"
proof -
  have t: "member_id target = 42" by (simp add: target_def)
  have f: "users fresh_world (member_id target) = None" by (simp add: fresh_world_def)
  have k: "pool known_world" "users known_world (member_id target) = Some (Some 0)"
    by (simp_all add: known_world_def target_def)
  show ?thesis
    using warn_counter [of fresh_world target quiet_env example_bot example_ctx "''spam''" 0]
      warn_counter [of known_world target quiet_env example_bot example_ctx "''spam''" 0]
      example_authority quiet_no_faults f k
    by (simp add: t)
qed

lemma warn_fresh_trace:
  "trace (snd (warn quiet_env example_bot example_ctx target ''spam'' fresh_world)) =
     [MemberSend 42 ''Warning'', DbInsertLog 42 ''warn'', DbSelectUser 42,
      CtxSendEmbed ''User Warned'' (Some 1), LoggerModeration ''warn'' 5 42]"
  by code_simp

text \<open>
  C4, as stated: three warns of a fresh user leave the stored counter at 1, 2
  and 3. Here the first warn runs to its confirmation, and after each of the
  three the table has no row, hence no counter, for the user.
\<close>

theorem warn_fresh_user_counterexample:
  "trace (snd (warn quiet_env example_bot example_ctx target ''spam'' fresh_world)) =
     [MemberSend 42 ''Warning'', DbInsertLog 42 ''warn'', DbSelectUser 42,
      CtxSendEmbed ''User Warned'' (Some 1), LoggerModeration ''warn'' 5 42]
   \<and> users (snd (warn quiet_env example_bot example_ctx target ''spam'' fresh_world)) 42 = None
   \<and> users (snd (warn quiet_env example_bot example_ctx target ''spam''
        (snd (warn quiet_env example_bot example_ctx target ''spam'' fresh_world)))) 42 = None
   \<and> users (snd (warn quiet_env example_bot example_ctx target ''spam''
        (snd (warn quiet_env example_bot example_ctx target ''spam''
          (snd (warn quiet_env example_bot example_ctx target ''spam'' fresh_world)))))) 42 = None"
proof -
  let ?warn = "warn quiet_env example_bot example_ctx target ''spam''"
  have t: "member_id target = 42" by (simp add: target_def)
  have u0: "users fresh_world 42 = None" by (simp add: fresh_world_def)
  have step: "users (snd (?warn w)) 42 = None" if "users w 42 = None" for w
    using warn_keeps_absent [of w target quiet_env example_bot example_ctx "''spam''"] that
    by (simp add: t)
  have u1: "users (snd (?warn fresh_world)) 42 = None" by (rule step [OF u0])
  have u2: "users (snd (?warn (snd (?warn fresh_world)))) 42 = None" by (rule step [OF u1])
  have u3: "users (snd (?warn (snd (?warn (snd (?warn fresh_world)))))) 42 = None"
    by (rule step [OF u2])
  show ?thesis using warn_fresh_trace u1 u2 u3 by simp
qed

end
